theory Spec2Isabelle
  imports Main
begin

section \<open>JSON payloads and the Python operations the extractor applies to them\<close>

text \<open>
  The extractor of \<^verbatim>\<open>yt_dlp/extractor/afreecatv.py\<close> works on decoded JSON. A payload is
  a value of \<open>json\<close>; an object is an association list in which the first binding of a
  key is the one the dictionary holds. Floating-point numbers do not occur in the fields
  the extractor reads and are left out. Strings are byte strings; the model covers
  ASCII text.
\<close>

datatype json =
    JNull
  | JBool bool
  | JInt int
  | JStr string
  | JList "json list"
  | JDict "(string \<times> json) list"

text \<open>
  Every \<^verbatim>\<open>raise\<close> of the source is a constructor. The first seven are the
  \<^verbatim>\<open>ExtractorError\<close>s of the two resolvers, one per raise site:
  \<^item> \<open>VodDoesNotExist\<close>: \<^verbatim>\<open>'The VOD does not exist'\<close> (line 191);
  \<^item> \<open>AdultCredentials\<close>: \<^verbatim>\<open>'afreecatv said: Only users older than 19 are able to watch
    this video. Provide account credentials to download this content.'\<close> (lines 216, 219);
  \<^item> \<open>SaidFlag flag\<close>: \<^verbatim>\<open>'afreecatv said: %s' % flag\<close> (lines 218, 219);
  \<^item> \<open>UnableToDownloadVideoInfo\<close>: the \<^verbatim>\<open>else\<close> of the \<^verbatim>\<open>for\<close> loop (line 222);
  \<^item> \<open>VideoDoesNotExist video_id\<close>: \<^verbatim>\<open>'Video %s does not exist'\<close> (line 226);
  \<^item> \<open>UnableToExtractBroadcastNumber broadcaster_id\<close> (line 363);
  \<^item> \<open>PasswordProtected\<close> (line 365).
  The others are the exceptions Python itself raises on a payload of the wrong shape, and
  \<open>Collaborator\<close> is a failure raised inside an external collaborator (transport,
  manifest expansion, date parsing).
\<close>

datatype error =
    VodDoesNotExist
  | AdultCredentials
  | SaidFlag json
  | UnableToDownloadVideoInfo
  | VideoDoesNotExist string
  | UnableToExtractBroadcastNumber json
  | PasswordProtected
  | KeyError string
  | IndexError
  | TypeError
  | ValueError
  | AttributeError
  | Collaborator string

text \<open>The \<^verbatim>\<open>expected=True\<close> argument of each \<^verbatim>\<open>ExtractorError\<close>.\<close>

fun expected :: "error \<Rightarrow> bool" where
  "expected VodDoesNotExist = True"
| "expected AdultCredentials = True"
| "expected (SaidFlag _) = True"
| "expected (VideoDoesNotExist _) = True"
| "expected (UnableToExtractBroadcastNumber _) = True"
| "expected PasswordProtected = True"
| "expected _ = False"

text \<open>Python truth value of a payload (\<^verbatim>\<open>if x\<close>, \<^verbatim>\<open>not x\<close>, \<^verbatim>\<open>x or y\<close>).\<close>

fun truthy :: "json \<Rightarrow> bool" where
  "truthy JNull = False"
| "truthy (JBool b) = b"
| "truthy (JInt n) = (n \<noteq> 0)"
| "truthy (JStr s) = (s \<noteq> [])"
| "truthy (JList xs) = (xs \<noteq> [])"
| "truthy (JDict kvs) = (kvs \<noteq> [])"

definition py_or :: "json \<Rightarrow> json \<Rightarrow> json" where
  "py_or a b = (if truthy a then a else b)"

text \<open>\<^verbatim>\<open>obj[key]\<close> with a string key.\<close>

fun getitem :: "json \<Rightarrow> string \<Rightarrow> error + json" where
  "getitem (JDict kvs) k = (case map_of kvs k of None \<Rightarrow> Inl (KeyError k) | Some v \<Rightarrow> Inr v)"
| "getitem _ k = Inl TypeError"

text \<open>\<^verbatim>\<open>obj.get(key)\<close> and \<^verbatim>\<open>obj.get(key, default)\<close>: only a dictionary has the method.\<close>

fun dict_get_default :: "json \<Rightarrow> string \<Rightarrow> json \<Rightarrow> error + json" where
  "dict_get_default (JDict kvs) k d = (case map_of kvs k of None \<Rightarrow> Inr d | Some v \<Rightarrow> Inr v)"
| "dict_get_default _ k d = Inl AttributeError"

definition dict_get :: "json \<Rightarrow> string \<Rightarrow> error + json" where
  "dict_get obj k = dict_get_default obj k JNull"

text \<open>\<^verbatim>\<open>obj[-1]\<close>: the last element of a list, the last character of a string.\<close>

fun getitem_last :: "json \<Rightarrow> error + json" where
  "getitem_last (JList xs) = (if xs = [] then Inl IndexError else Inr (last xs))"
| "getitem_last (JStr s) = (if s = [] then Inl IndexError else Inr (JStr [last s]))"
| "getitem_last (JDict kvs) = Inl (KeyError ''-1'')"
| "getitem_last _ = Inl TypeError"

text \<open>
  The elements \<^verbatim>\<open>enumerate(obj, start=1)\<close> runs over and \<^verbatim>\<open>len(obj)\<close> counts: the
  items of a list, the characters of a string, the keys of a dictionary.
\<close>

fun elements :: "json \<Rightarrow> json list" where
  "elements (JList xs) = xs"
| "elements (JStr s) = map (\<lambda>c. JStr [c]) s"
| "elements (JDict kvs) = map (\<lambda>k. JStr k) (remdups (map fst kvs))"
| "elements _ = []"

text \<open>\<^verbatim>\<open>str.strip()\<close>: the ASCII characters for which \<^verbatim>\<open>str.isspace\<close> holds.\<close>

definition py_space :: "char \<Rightarrow> bool" where
  "py_space c = (of_char c \<in> {9, 10, 11, 12, 13, 28, 29, 30, 31, 32 :: nat})"

definition strip :: "string \<Rightarrow> string" where
  "strip s = rev (dropWhile py_space (rev (dropWhile py_space s)))"

text \<open>
  \<^verbatim>\<open>str(video_element).strip()\<close> is only ever tested for emptiness while it is non-empty.
  The text of a number, a boolean, a list or a dictionary starts and ends with a
  non-blank character, so the test succeeds for them; for a string it is the stripped
  string itself.
\<close>

fun str_strip :: "json \<Rightarrow> string option" where
  "str_strip (JStr s) = Some (strip s)"
| "str_strip _ = None"

text \<open>\<^verbatim>\<open>'%s' % n\<close> for a position: decimal digits.\<close>

fun digit_char :: "nat \<Rightarrow> char" where
  "digit_char n = char_of (48 + n mod 10)"

fun str_nat_aux :: "nat \<Rightarrow> nat \<Rightarrow> string \<Rightarrow> string" where
  "str_nat_aux 0 n acc = acc"
| "str_nat_aux (Suc fuel) n acc =
     (if n < 10 then digit_char n # acc
      else str_nat_aux fuel (n div 10) (digit_char n # acc))"

definition str_nat :: "nat \<Rightarrow> string" where
  "str_nat n = str_nat_aux (Suc n) n []"

section \<open>The VOD resolver: \<^verbatim>\<open>AfreecaTVIE._real_extract\<close>\<close>

subsection \<open>External collaborators\<close>

text \<open>
  The helpers of \<^verbatim>\<open>yt_dlp.utils\<close> and of \<^verbatim>\<open>InfoExtractor\<close> that the resolver calls are
  parameters of the model, collected in one record:
  \<^item> \<open>download_json n req\<close>: the decoded answer to the view-info request \<open>req\<close> when
    \<open>n\<close> requests were issued before it, or the failure \<^verbatim>\<open>_download_json\<close> raises;
  \<^item> \<open>traverse_obj obj path\<close>: \<^verbatim>\<open>traverse_obj(obj, path)\<close>, with \<^verbatim>\<open>None\<close> as \<open>JNull\<close>;
  \<^item> \<open>url_or_none\<close>, \<open>unified_strdate\<close>, \<open>date_from_str\<close>, \<open>int_or_none\<close>,
    \<open>determine_ext\<close>: the functions of the same names;
  \<^item> \<open>extract_m3u8_formats file_url video_id\<close>: the manifest expander;
  \<^item> \<open>ignore_no_formats\<close>: the truth value of \<^verbatim>\<open>get_param('ignore_no_formats')\<close>.
\<close>

datatype path_key = Key string | IsInt

record request =
  req_url :: string
  req_headers :: "(string \<times> string) list"
  req_data :: "(string \<times> string) list"
  req_query :: "(string \<times> json) list"

record date =
  year :: int
  month :: nat
  day :: nat

record fmt =
  fmt_url :: string
  fmt_format_id :: string

record vod_env =
  download_json :: "nat \<Rightarrow> request \<Rightarrow> error + json"
  traverse_obj :: "json \<Rightarrow> path_key list \<Rightarrow> json"
  url_or_none :: "json \<Rightarrow> string option"
  unified_strdate :: "string option \<Rightarrow> string option"
  date_from_str :: "string \<Rightarrow> error + date"
  int_or_none :: "json \<Rightarrow> int option"
  determine_ext :: "string \<Rightarrow> string"
  extract_m3u8_formats :: "string \<Rightarrow> string \<Rightarrow> error + fmt list"
  ignore_no_formats :: bool

text \<open>What a run leaves behind: the view-info requests issued and the warnings reported.\<close>

record trace =
  requests :: "request list"
  warnings :: "string list"

definition empty_trace :: trace where
  "empty_trace = \<lparr>requests = [], warnings = []\<rparr>"

subsection \<open>The negotiation loop (lines 181 to 222)\<close>

text \<open>
  The request of line 184: the URL, the \<^verbatim>\<open>Referer\<close> header and the form
  \<^verbatim>\<open>{'nTitleNo': video_id, 'nApiLevel': 10}\<close>. It has no query string, and it depends on
  neither \<^verbatim>\<open>partial_view\<close> nor \<^verbatim>\<open>adult_view\<close>.
\<close>

definition view_request :: "string \<Rightarrow> string \<Rightarrow> request" where
  "view_request url video_id =
     \<lparr>req_url = ''https://api.m.afreecatv.com/station/video/a/view'',
      req_headers = [(''Referer'', url)],
      req_data = [(''nTitleNo'', video_id), (''nApiLevel'', ''10'')],
      req_query = []\<rparr>"

text \<open>
  The dictionary \<^verbatim>\<open>query\<close> of lines 192 to 200. Building it reads
  \<^verbatim>\<open>data['station_no']\<close> and \<^verbatim>\<open>data['bbs_no']\<close>, which raise when absent.
\<close>

definition view_query :: "string \<Rightarrow> json \<Rightarrow> bool \<Rightarrow> bool \<Rightarrow> error + (string \<times> json) list" where
  "view_query video_id data partial_view adult_view =
     (case getitem data ''station_no'' of
        Inl e \<Rightarrow> Inl e
      | Inr station_no \<Rightarrow>
          (case getitem data ''bbs_no'' of
             Inl e \<Rightarrow> Inl e
           | Inr bbs_no \<Rightarrow>
               Inr ([(''nTitleNo'', JStr video_id), (''nStationNo'', station_no), (''nBbsNo'', bbs_no)]
                    @ (if partial_view then [(''partialView'', JStr ''SKIP_ADULT'')] else [])
                    @ (if adult_view then [(''adultView'', JStr ''ADULT_VIEW'')] else []))))"

definition partial_adult_warning :: string where
  "partial_adult_warning =
     ''In accordance with local laws and regulations, underage users are restricted from watching adult content. ''
     @ ''Only content suitable for all ages will be downloaded. ''
     @ ''Provide account credentials if you wish to download restricted content.''"

text \<open>
  Lines 184 to 202, the part of an iteration before the flag is inspected: the request,
  the \<^verbatim>\<open>data\<close> of its answer, the sentinel test, \<^verbatim>\<open>query\<close> and \<^verbatim>\<open>flag\<close>. The last
  argument is the number of requests issued before.
\<close>

definition view_attempt ::
  "vod_env \<Rightarrow> string \<Rightarrow> string \<Rightarrow> bool \<Rightarrow> bool \<Rightarrow> nat \<Rightarrow> error + json \<times> (string \<times> json) list \<times> json" where
  "view_attempt env url video_id partial_view adult_view n =
     (case download_json env n (view_request url video_id) of
        Inl e \<Rightarrow> Inl e
      | Inr response \<Rightarrow>
     (case getitem response ''data'' of
        Inl e \<Rightarrow> Inl e
      | Inr data \<Rightarrow>
     if traverse_obj env data [Key ''code'', IsInt] = JInt (- 6221) then Inl VodDoesNotExist
     else
     (case view_query video_id data partial_view adult_view of
        Inl e \<Rightarrow> Inl e
      | Inr query \<Rightarrow>
     (case getitem data ''flag'' of
        Inl e \<Rightarrow> Inl e
      | Inr flag \<Rightarrow> Inr (data, query, flag)))))"

text \<open>
  \<^verbatim>\<open>for _ in range(2)\<close>: the first argument counts the iterations that remain; with
  none left the \<^verbatim>\<open>else\<close> of the loop raises. \<^verbatim>\<open>break\<close> leaves the loop with the
  \<^verbatim>\<open>data\<close> of the last answer. \<^verbatim>\<open>query\<close> is not used after it is built.
\<close>

fun view_loop :: "nat \<Rightarrow> vod_env \<Rightarrow> string \<Rightarrow> string \<Rightarrow> bool \<Rightarrow> bool \<Rightarrow> trace \<Rightarrow> (error + json) \<times> trace" where
  "view_loop 0 env url video_id partial_view adult_view tr = (Inl UnableToDownloadVideoInfo, tr)"
| "view_loop (Suc n) env url video_id partial_view adult_view tr =
     (let tr1 = tr\<lparr>requests := requests tr @ [view_request url video_id]\<rparr>
      in case view_attempt env url video_id partial_view adult_view (length (requests tr)) of
           Inl e \<Rightarrow> (Inl e, tr1)
         | Inr (data, query, flag) \<Rightarrow>
             if truthy flag \<and> flag = JStr ''SUCCEED'' then (Inr data, tr1)
             else if flag = JStr ''PARTIAL_ADULT'' then
               view_loop n env url video_id True adult_view
                 (tr1\<lparr>warnings := warnings tr1 @ [partial_adult_warning]\<rparr>)
             else if flag = JStr ''ADULT'' then
               (if \<not> adult_view then view_loop n env url video_id partial_view True tr1
                else (Inl AdultCredentials, tr1))
             else (Inl (SaidFlag flag), tr1))"

subsection \<open>Building the record (lines 224 to 321)\<close>

text \<open>Sequencing of steps that may raise.\<close>

definition then_do :: "error + 'a \<Rightarrow> ('a \<Rightarrow> error + 'b) \<Rightarrow> error + 'b" where
  "then_do r f = (case r of Inl e \<Rightarrow> Inl e | Inr x \<Rightarrow> f x)"

text \<open>
  The title of a part is \<^verbatim>\<open>title\<close> itself, or \<^verbatim>\<open>'%s (part %d)' % (title, file_num)\<close>,
  kept as its two arguments.
\<close>

datatype part_title = Title json | PartTitle json nat

record entry =
  entry_uploader :: json
  entry_uploader_id :: json
  entry_thumbnail :: json
  entry_id :: json
  entry_title :: part_title
  entry_upload_date :: "string option"
  entry_duration :: "int option"
  entry_formats :: "fmt list"

record info =
  info_id :: string
  info_title :: json
  info_uploader :: json
  info_uploader_id :: json
  info_duration :: json
  info_thumbnail :: json

record rtmp_source =
  rtmp_url :: string
  rtmp_ext :: string
  rtmp_play_path :: string
  rtmp_live :: bool

text \<open>
  The three shapes \<^verbatim>\<open>_real_extract\<close> returns: the \<^verbatim>\<open>multi_video\<close> dictionary with its
  \<^verbatim>\<open>entries\<close> (line 297), and the single item of line 321, which carries either the
  \<^verbatim>\<open>formats\<close> of a manifest or the \<^verbatim>\<open>url\<close>, \<^verbatim>\<open>ext\<close>, \<^verbatim>\<open>play_path\<close> and \<^verbatim>\<open>rtmp_live\<close>
  of a push stream.
\<close>

datatype info_dict =
    MultiVideo info "entry list"
  | SingleFormats info "fmt list"
  | SingleRtmp info rtmp_source

text \<open>
  \<^verbatim>\<open>self._search_regex(r'^(\d{8})_', key, 'upload date', default=None)\<close>: the first eight
  characters when they are digits and an underscore follows, else the default. The helper
  answers the default for \<^verbatim>\<open>None\<close>; \<^verbatim>\<open>re.search\<close> raises on any other value that is not
  a string.
\<close>

definition is_digit :: "char \<Rightarrow> bool" where
  "is_digit c = (48 \<le> (of_char c :: nat) \<and> (of_char c :: nat) \<le> 57)"

definition search_upload_date :: "string \<Rightarrow> string option" where
  "search_upload_date key =
     (if 9 \<le> length key \<and> list_all is_digit (take 8 key) \<and> key ! 8 = CHR ''_''
      then Some (take 8 key) else None)"

fun search_regex_upload_date :: "json \<Rightarrow> error + string option" where
  "search_regex_upload_date (JStr key) = Inr (search_upload_date key)"
| "search_regex_upload_date JNull = Inr None"
| "search_regex_upload_date _ = Inl TypeError"

text \<open>Lines 260 to 268: the upload date of a part, dropped when its year is out of range.\<close>

definition part_upload_date :: "vod_env \<Rightarrow> json \<Rightarrow> error + string option" where
  "part_upload_date env key =
     then_do (search_regex_upload_date key) (\<lambda>m.
       case unified_strdate env m of
         None \<Rightarrow> Inr None
       | Some upload_date \<Rightarrow>
           then_do (date_from_str env upload_date) (\<lambda>parsed_date.
             if year parsed_date < 2000 \<or> year parsed_date \<ge> 2100 then Inr None
             else Inr (Some upload_date)))"

text \<open>Lines 271 to 280: the sources of one file.\<close>

definition file_formats :: "vod_env \<Rightarrow> string \<Rightarrow> string \<Rightarrow> error + fmt list" where
  "file_formats env video_id file_url =
     (if determine_ext env file_url = ''m3u8'' then extract_m3u8_formats env file_url video_id
      else Inr [\<lparr>fmt_url = file_url, fmt_format_id = ''http''\<rparr>])"

text \<open>Lines 283 to 290: the dictionary of a part.\<close>

definition file_info ::
  "vod_env \<Rightarrow> string \<Rightarrow> info \<Rightarrow> bool \<Rightarrow> nat \<Rightarrow> json \<Rightarrow> string option \<Rightarrow> json \<Rightarrow> fmt list \<Rightarrow> entry" where
  "file_info env video_id common one file_num key upload_date duration formats =
     \<lparr>entry_uploader = info_uploader common,
      entry_uploader_id = info_uploader_id common,
      entry_thumbnail = info_thumbnail common,
      entry_id = (if truthy key then key else JStr (video_id @ ''_'' @ str_nat file_num)),
      entry_title = (if one then Title (info_title common)
                     else PartTitle (info_title common) file_num),
      entry_upload_date = upload_date,
      entry_duration = int_or_none env duration,
      entry_formats = formats\<rparr>"

text \<open>
  One iteration of the loop of line 255. \<open>None\<close> is \<^verbatim>\<open>continue\<close>: the file adds no
  entry.
\<close>

definition extract_entry ::
  "vod_env \<Rightarrow> string \<Rightarrow> info \<Rightarrow> bool \<Rightarrow> nat \<Rightarrow> json \<Rightarrow> error + entry option" where
  "extract_entry env video_id common one file_num file_element =
     then_do (getitem file_element ''file'') (\<lambda>file.
       case url_or_none env file of
         None \<Rightarrow> Inr None
       | Some file_url \<Rightarrow>
           if file_url = [] then Inr None
           else
           then_do (getitem file_element ''file_info_key'') (\<lambda>key.
           then_do (part_upload_date env key) (\<lambda>upload_date.
           then_do (getitem file_element ''duration'') (\<lambda>duration.
           then_do (file_formats env video_id file_url) (\<lambda>formats.
             if formats = [] \<and> \<not> ignore_no_formats env then Inr None
             else Inr (Some (file_info env video_id common one file_num key upload_date
                               duration formats)))))))"

text \<open>The loop itself; the first argument is \<^verbatim>\<open>file_num\<close>.\<close>

fun extract_entries ::
  "nat \<Rightarrow> vod_env \<Rightarrow> string \<Rightarrow> info \<Rightarrow> bool \<Rightarrow> json list \<Rightarrow> error + entry list" where
  "extract_entries file_num env video_id common one [] = Inr []"
| "extract_entries file_num env video_id common one (file_element # rest) =
     then_do (extract_entry env video_id common one file_num file_element) (\<lambda>r.
     then_do (extract_entries (Suc file_num) env video_id common one rest) (\<lambda>entries.
       Inr (case r of None \<Rightarrow> entries | Some part \<Rightarrow> part # entries)))"

text \<open>
  \<^verbatim>\<open>video_url.split('mp4:')\<close> cuts at every occurrence of the separator, from the left;
  \<^verbatim>\<open>app, playpath = ...\<close> raises \<^verbatim>\<open>ValueError\<close> unless there are exactly two pieces.
\<close>

fun py_split :: "string \<Rightarrow> string \<Rightarrow> string \<Rightarrow> string list" where
  "py_split sep cur [] = [rev cur]"
| "py_split sep cur (c # cs) =
     (if sep \<noteq> [] \<and> take (length sep) (c # cs) = sep
      then rev cur # py_split sep [] (drop (length sep - 1) cs)
      else py_split sep (c # cur) cs)"

definition unpack2 :: "string list \<Rightarrow> error + string \<times> string" where
  "unpack2 parts = (case parts of [a, b] \<Rightarrow> Inr (a, b) | _ \<Rightarrow> Inl ValueError)"

text \<open>Lines 299 to 321: the single item.\<close>

definition single_info :: "vod_env \<Rightarrow> string \<Rightarrow> info \<Rightarrow> string \<Rightarrow> error + info_dict" where
  "single_info env video_id common video_url =
     (if determine_ext env video_url = ''m3u8''
      then then_do (extract_m3u8_formats env video_url video_id) (\<lambda>formats.
             Inr (SingleFormats common formats))
      else then_do (unpack2 (py_split ''mp4:'' [] video_url)) (\<lambda>(app, playpath).
             Inr (SingleRtmp common
               \<lparr>rtmp_url = app, rtmp_ext = ''flv'',
                rtmp_play_path = ''mp4:'' @ playpath, rtmp_live = True\<rparr>)))"

text \<open>
  Lines 224 to 321. \<^verbatim>\<open>if video_url:\<close> holds for every last file element except a
  blank string.
\<close>

definition build_info :: "vod_env \<Rightarrow> string \<Rightarrow> json \<Rightarrow> error + info_dict" where
  "build_info env video_id data =
     then_do (getitem data ''files'') (\<lambda>files.
     then_do (getitem_last files) (\<lambda>video_element.
       if video_element = JNull then Inl (VideoDoesNotExist video_id)
       else
       then_do (getitem data ''title'') (\<lambda>title.
       then_do (getitem data ''writer_nick'') (\<lambda>uploader.
       then_do (getitem data ''bj_id'') (\<lambda>uploader_id.
       then_do (getitem data ''total_file_duration'') (\<lambda>duration.
       then_do (getitem data ''thumb'') (\<lambda>thumbnail.
         let common = \<lparr>info_id = video_id, info_title = title, info_uploader = uploader,
                       info_uploader_id = uploader_id, info_duration = duration,
                       info_thumbnail = thumbnail\<rparr>;
             file_elements = elements files;
             one = (length file_elements = 1);
             multi = then_do (extract_entries 1 env video_id common one file_elements)
                       (\<lambda>entries. Inr (MultiVideo common entries))
         in case str_strip video_element of
              None \<Rightarrow> multi
            | Some video_url \<Rightarrow>
                if video_url \<noteq> [] then multi
                else single_info env video_id common video_url)))))))"

definition real_extract :: "vod_env \<Rightarrow> string \<Rightarrow> string \<Rightarrow> (error + info_dict) \<times> trace" where
  "real_extract env url video_id =
     (case view_loop 2 env url video_id False False empty_trace of
        (Inl e, tr) \<Rightarrow> (Inl e, tr)
      | (Inr data, tr) \<Rightarrow> (build_info env video_id data, tr))"

section \<open>The live resolver: \<^verbatim>\<open>AfreecaTVLiveIE._real_extract\<close>\<close>

text \<open>
  The requests of the live resolver, one constructor per call of \<^verbatim>\<open>_download_json\<close>,
  with the values the call is built from:
  \<^item> \<open>ChannelRequest bid\<close>: the channel lookup of line 356, form \<^verbatim>\<open>{'bid': bid}\<close>;
  \<^item> \<open>AidRequest bno quality pwd\<close>: the access token of line 380, form
    \<^verbatim>\<open>{'bno', 'stream_type': 'common', 'type': 'aid', 'quality'}\<close> and \<^verbatim>\<open>'pwd'\<close> when a
    password is given;
  \<^item> \<open>StreamAssignRequest base cdn bno quality\<close>: the CDN assignment of line 390, at
    \<^verbatim>\<open>f'{base}/broad_stream_assign.html'\<close> with \<^verbatim>\<open>return_type = cdn\<close> and
    \<^verbatim>\<open>broad_key = f'{bno}-common-{quality}-hls'\<close>;
  \<^item> \<open>StationRequest bid\<close>: the channel status of line 408, query \<^verbatim>\<open>{'szBjId': bid}\<close>.
\<close>

datatype live_request =
    ChannelRequest string
  | AidRequest json string "string option"
  | StreamAssignRequest json json json string
  | StationRequest json

text \<open>
  The collaborators of the live resolver. Every download is made with
  \<^verbatim>\<open>fatal=False\<close>: \<open>download_nonfatal earlier req\<close> is the decoded answer to \<open>req\<close>
  after the requests \<open>earlier\<close>, and \<open>JBool False\<close> when the download fails.
  \<open>update_url_query view_url aid\<close> is \<^verbatim>\<open>update_url_query(view_url, {'aid': aid})\<close>, and
  \<open>None\<close> when that call raises. \<open>videopassword\<close> is \<^verbatim>\<open>get_param('videopassword')\<close>.
\<close>

record live_env =
  download_nonfatal :: "live_request list \<Rightarrow> live_request \<Rightarrow> json"
  live_traverse_obj :: "json \<Rightarrow> path_key list \<Rightarrow> json"
  update_url_query :: "json \<Rightarrow> json \<Rightarrow> string option"
  unified_timestamp :: "json \<Rightarrow> int option"
  videopassword :: "string option"

record live_format =
  live_format_id :: string
  live_url :: string
  live_ext :: string
  live_protocol :: string
  live_quality :: int

record live_info =
  live_id :: json
  live_title :: json
  live_uploader :: json
  live_uploader_id :: json
  live_timestamp :: "int option"
  live_formats :: "live_format list"
  is_live :: bool

definition QUALITIES :: "string list" where
  "QUALITIES = [''sd'', ''hd'', ''hd2k'', ''original'']"

text \<open>\<^verbatim>\<open>qualities(ids)(q)\<close>: the position of \<open>q\<close> in \<open>ids\<close>, or \<open>-1\<close>.\<close>

fun qualities :: "string list \<Rightarrow> string \<Rightarrow> int" where
  "qualities [] q = - 1"
| "qualities (x # xs) q =
     (if x = q then 0 else (let r = qualities xs q in if r < 0 then - 1 else r + 1))"

text \<open>
  Lines 353 to 367: the channel lookup. The result is \<^verbatim>\<open>channel_info\<close>,
  \<^verbatim>\<open>broadcaster_id\<close> and \<^verbatim>\<open>broadcast_no\<close>; \<open>url_id\<close> and \<open>url_bno\<close> are the groups
  \<^verbatim>\<open>id\<close> and \<^verbatim>\<open>bno\<close> of the URL.
\<close>

definition url_group :: "string option \<Rightarrow> json" where
  "url_group g = (case g of None \<Rightarrow> JNull | Some s \<Rightarrow> JStr s)"

definition live_channel ::
  "live_env \<Rightarrow> string \<Rightarrow> string option \<Rightarrow> error + json \<times> json \<times> json" where
  "live_channel env url_id url_bno =
     (let info = py_or (download_nonfatal env [] (ChannelRequest url_id)) (JDict [])
      in then_do (dict_get info ''CHANNEL'') (\<lambda>channel.
           let channel_info = py_or channel (JDict [])
           in then_do (dict_get channel_info ''BJID'') (\<lambda>bjid.
              then_do (dict_get channel_info ''BNO'') (\<lambda>bno.
              then_do (dict_get channel_info ''BPWD'') (\<lambda>password_protected.
                let broadcaster_id = py_or bjid (JStr url_id);
                    broadcast_no = py_or bno (url_group url_bno)
                in if \<not> truthy broadcast_no
                   then Inl (UnableToExtractBroadcastNumber broadcaster_id)
                   else if password_protected = JStr ''Y'' \<and> videopassword env = None
                   then Inl PasswordProtected
                   else Inr (channel_info, broadcaster_id, broadcast_no))))))"

text \<open>One iteration of the loop over the quality tiers (lines 371 to 406).\<close>

definition tier_step ::
  "live_env \<Rightarrow> json \<Rightarrow> json \<Rightarrow> string \<Rightarrow> live_format list \<Rightarrow> live_request list
     \<Rightarrow> (error + live_format list) \<times> live_request list" where
  "tier_step env channel_info broadcast_no quality_str formats log =
     (let aid_request = AidRequest broadcast_no quality_str (videopassword env);
          aid_response = download_nonfatal env log aid_request;
          log1 = log @ [aid_request];
          aid = live_traverse_obj env aid_response [Key ''CHANNEL'', Key ''AID'']
      in if \<not> truthy aid then (Inr formats, log1)
         else
         (case dict_get channel_info ''RMD'' of
            Inl e \<Rightarrow> (Inl e, log1)
          | Inr rmd \<Rightarrow>
         (case dict_get_default channel_info ''CDN'' (JStr ''gcp_cdn'') of
            Inl e \<Rightarrow> (Inl e, log1)
          | Inr cdn \<Rightarrow>
         (let stream_base_url = py_or rmd (JStr ''https://livestream-manager.afreecatv.com'');
              assign_request = StreamAssignRequest stream_base_url cdn broadcast_no quality_str;
              stream_info = py_or (download_nonfatal env log1 assign_request) (JDict []);
              log2 = log1 @ [assign_request]
          in case dict_get stream_info ''view_url'' of
               Inl e \<Rightarrow> (Inl e, log2)
             | Inr view_url \<Rightarrow>
                 if \<not> truthy view_url then (Inr formats, log2)
                 else
                 (case update_url_query env view_url aid of
                    None \<Rightarrow> (Inl (Collaborator ''update_url_query''), log2)
                  | Some u \<Rightarrow>
                      (Inr (formats @
                         [\<lparr>live_format_id = quality_str, live_url = u, live_ext = ''mp4'',
                           live_protocol = ''m3u8'',
                           live_quality = qualities QUALITIES quality_str\<rparr>]), log2))))))"

fun tier_loop ::
  "live_env \<Rightarrow> json \<Rightarrow> json \<Rightarrow> string list \<Rightarrow> live_format list \<Rightarrow> live_request list
     \<Rightarrow> (error + live_format list) \<times> live_request list" where
  "tier_loop env channel_info broadcast_no [] formats log = (Inr formats, log)"
| "tier_loop env channel_info broadcast_no (quality_str # rest) formats log =
     (case tier_step env channel_info broadcast_no quality_str formats log of
        (Inl e, log1) \<Rightarrow> (Inl e, log1)
      | (Inr formats1, log1) \<Rightarrow> tier_loop env channel_info broadcast_no rest formats1 log1)"

text \<open>Lines 408 to 421: the channel status and the record.\<close>

definition live_record ::
  "live_env \<Rightarrow> json \<Rightarrow> json \<Rightarrow> json \<Rightarrow> live_format list \<Rightarrow> live_request list
     \<Rightarrow> (error + live_info) \<times> live_request list" where
  "live_record env channel_info broadcaster_id broadcast_no formats log =
     (let station_request = StationRequest broadcaster_id;
          station_info = py_or (download_nonfatal env log station_request) (JDict []);
          log1 = log @ [station_request]
      in (then_do (dict_get channel_info ''TITLE'') (\<lambda>t.
          then_do (if truthy t then Inr t else dict_get station_info ''station_title'') (\<lambda>title.
          then_do (dict_get channel_info ''BJNICK'') (\<lambda>n.
          then_do (if truthy n then Inr n else dict_get station_info ''station_name'') (\<lambda>uploader.
          then_do (dict_get station_info ''broad_start'') (\<lambda>broad_start.
            Inr \<lparr>live_id = broadcast_no, live_title = title, live_uploader = uploader,
                 live_uploader_id = broadcaster_id,
                 live_timestamp = unified_timestamp env broad_start,
                 live_formats = formats, is_live = True\<rparr>))))), log1))"

definition live_real_extract ::
  "live_env \<Rightarrow> string \<Rightarrow> string option \<Rightarrow> (error + live_info) \<times> live_request list" where
  "live_real_extract env url_id url_bno =
     (case live_channel env url_id url_bno of
        Inl e \<Rightarrow> (Inl e, [ChannelRequest url_id])
      | Inr (channel_info, broadcaster_id, broadcast_no) \<Rightarrow>
          (case tier_loop env channel_info broadcast_no QUALITIES [] [ChannelRequest url_id] of
             (Inl e, log) \<Rightarrow> (Inl e, log)
           | (Inr formats, log) \<Rightarrow>
               live_record env channel_info broadcaster_id broadcast_no formats log))"

section \<open>Stand-ins for the collaborators, for concrete runs\<close>

text \<open>
  The theorems below hold for every collaborator. Concrete runs need concrete ones; these
  stand-ins give, on the payloads used in this file, the values of the functions of
  \<^verbatim>\<open>yt_dlp.utils\<close> they stand for.
\<close>

fun example_traverse_obj :: "json \<Rightarrow> path_key list \<Rightarrow> json" where
  "example_traverse_obj obj [] = obj"
| "example_traverse_obj (JDict kvs) (Key k # path) =
     (case map_of kvs k of None \<Rightarrow> JNull | Some v \<Rightarrow> example_traverse_obj v path)"
| "example_traverse_obj (JInt n) (IsInt # path) = example_traverse_obj (JInt n) path"
| "example_traverse_obj (JBool b) (IsInt # path) = example_traverse_obj (JBool b) path"
| "example_traverse_obj _ _ = JNull"

definition url_schemes :: "string list" where
  "url_schemes =
     [''//'', ''http://'', ''https://'', ''rtmp://'', ''rtmpt://'', ''rtmpe://'', ''rtmps://'',
      ''rtmpte://'', ''rtmpts://'', ''rtmfp://'', ''rtsp://'', ''rtsps://'', ''rtspu://'',
      ''mms://'', ''ftp://'', ''ftps://'']"

fun example_url_or_none :: "json \<Rightarrow> string option" where
  "example_url_or_none (JStr s) =
     (let u = strip s
      in if list_ex (\<lambda>p. take (length p) u = p) url_schemes then Some u else None)"
| "example_url_or_none _ = None"

definition alnum :: "char \<Rightarrow> bool" where
  "alnum c = (let n = (of_char c :: nat)
              in (48 \<le> n \<and> n \<le> 57) \<or> (65 \<le> n \<and> n \<le> 90) \<or> (97 \<le> n \<and> n \<le> 122))"

definition example_determine_ext :: "string \<Rightarrow> string" where
  "example_determine_ext url =
     (let guess = rev (takeWhile (\<lambda>c. c \<noteq> CHR ''.'') (rev (takeWhile (\<lambda>c. c \<noteq> CHR ''?'') url)))
      in if CHR ''.'' \<in> set url \<and> guess \<noteq> [] \<and> list_all alnum guess then guess
         else ''unknown_video'')"

definition digits_value :: "string \<Rightarrow> nat" where
  "digits_value s = foldl (\<lambda>a c. 10 * a + (of_char c - 48)) 0 s"

text \<open>On a date written \<^verbatim>\<open>YYYYMMDD\<close> both date functions are the obvious ones.\<close>

definition example_date_from_str :: "string \<Rightarrow> error + date" where
  "example_date_from_str s =
     (if length s = 8 \<and> list_all is_digit s
      then Inr \<lparr>year = int (digits_value (take 4 s)),
                month = digits_value (take 2 (drop 4 s)),
                day = digits_value (drop 6 s)\<rparr>
      else Inl (Collaborator ''date_from_str''))"

fun example_int_or_none :: "json \<Rightarrow> int option" where
  "example_int_or_none (JInt n) = Some n"
| "example_int_or_none _ = None"

text \<open>
  \<open>example_env answers expand permissive\<close>: the server gives \<open>answers\<close> in turn, the
  manifest expander is \<open>expand\<close>, and \<open>permissive\<close> is the zero-format option.
\<close>

definition example_env ::
  "(error + json) list \<Rightarrow> (string \<Rightarrow> string \<Rightarrow> error + fmt list) \<Rightarrow> bool \<Rightarrow> vod_env" where
  "example_env answers expand permissive =
     \<lparr>download_json = (\<lambda>n req. if n < length answers then answers ! n
                                else Inl (Collaborator ''download'')),
      traverse_obj = example_traverse_obj,
      url_or_none = example_url_or_none,
      unified_strdate = (\<lambda>m. m),
      date_from_str = example_date_from_str,
      int_or_none = example_int_or_none,
      determine_ext = example_determine_ext,
      extract_m3u8_formats = expand,
      ignore_no_formats = permissive\<rparr>"

definition no_formats :: "string \<Rightarrow> string \<Rightarrow> error + fmt list" where
  "no_formats file_url video_id = Inr []"

text \<open>A view-info answer with the given flag and file list, and a file entry.\<close>

definition view_data :: "json \<Rightarrow> json \<Rightarrow> json" where
  "view_data flag files =
     JDict
       [(''station_no'', JInt 16711924), (''bbs_no'', JInt 18605867), (''flag'', flag),
        (''files'', files), (''title'', JStr ''title''), (''writer_nick'', JStr ''nick''),
        (''bj_id'', JStr ''bj''), (''total_file_duration'', JInt 213000),
        (''thumb'', JStr ''http://videoimg.afreecatv.com/t.jpg'')]"

definition view_answer :: "json \<Rightarrow> json \<Rightarrow> error + json" where
  "view_answer flag files = Inr (JDict [(''data'', view_data flag files)])"

definition file_entry :: "json \<Rightarrow> json \<Rightarrow> json" where
  "file_entry file key =
     JDict [(''file'', file), (''file_info_key'', key), (''duration'', JInt 213000)]"

definition example_common :: "string \<Rightarrow> info" where
  "example_common video_id =
     \<lparr>info_id = video_id, info_title = JStr ''title'', info_uploader = JStr ''nick'',
      info_uploader_id = JStr ''bj'', info_duration = JInt 213000,
      info_thumbnail = JStr ''http://videoimg.afreecatv.com/t.jpg''\<rparr>"

text \<open>
  \<open>example_live_env channel password\<close>: the channel lookup is answered by \<open>channel\<close>
  and every other download fails.
\<close>

definition example_live_env :: "json \<Rightarrow> string option \<Rightarrow> live_env" where
  "example_live_env channel password =
     \<lparr>download_nonfatal = (\<lambda>earlier req. case req of ChannelRequest _ \<Rightarrow> channel
                                           | _ \<Rightarrow> JBool False),
      live_traverse_obj = example_traverse_obj,
      update_url_query = (\<lambda>view_url aid. None),
      unified_timestamp = (\<lambda>v. None),
      videopassword = password\<rparr>"

text \<open>
  The failures the specification files under \<^emph>\<open>Unresolvable\<close>: a flag that is none of
  the known ones (line 218) and the loop that ran out of attempts (line 222). This
  predicate follows the specification's taxonomy, not the source.
\<close>

fun spec_unresolvable :: "error \<Rightarrow> bool" where
  "spec_unresolvable (SaidFlag _) = True"
| "spec_unresolvable UnableToDownloadVideoInfo = True"
| "spec_unresolvable _ = False"

definition adult_twice_env :: vod_env where
  "adult_twice_env =
     example_env [view_answer (JStr ''ADULT'') (JList []), view_answer (JStr ''ADULT'') (JList [])]
       no_formats False"

definition partial_twice_env :: vod_env where
  "partial_twice_env =
     example_env [view_answer (JStr ''PARTIAL_ADULT'') (JList []),
                  view_answer (JStr ''PARTIAL_ADULT'') (JList [])]
       no_formats False"

text \<open>
  Two ways in which a file of the list adds no source. Its \<^verbatim>\<open>file\<close> value is present and
  \<^verbatim>\<open>url_or_none\<close> rejects it (line 257); or the URL is accepted and the formats computed
  for it are the empty list (line 281).
\<close>

definition invalid_url_file :: "vod_env \<Rightarrow> json \<Rightarrow> bool" where
  "invalid_url_file env file_element =
     (case getitem file_element ''file'' of
        Inl e \<Rightarrow> False
      | Inr file \<Rightarrow> (case url_or_none env file of None \<Rightarrow> True | Some u \<Rightarrow> u = []))"

definition zero_format_file :: "vod_env \<Rightarrow> string \<Rightarrow> json \<Rightarrow> bool" where
  "zero_format_file env video_id file_element =
     (case getitem file_element ''file'' of
        Inl e \<Rightarrow> False
      | Inr file \<Rightarrow>
          (case url_or_none env file of
             None \<Rightarrow> False
           | Some u \<Rightarrow> u \<noteq> [] \<and> file_formats env video_id u = Inr []))"

text \<open>\<open>occurs sep s\<close>: the text \<open>sep\<close> occurs somewhere in \<open>s\<close>.\<close>

fun occurs :: "string \<Rightarrow> string \<Rightarrow> bool" where
  "occurs sep [] = (sep = [])"
| "occurs sep (c # cs) = (take (length sep) (c # cs) = sep \<or> occurs sep cs)"

text \<open>The example runs: a trace of one request, file lists, and the servers that answer them.\<close>

definition one_request :: "string \<Rightarrow> string \<Rightarrow> trace" where
  "one_request url video_id = \<lparr>requests = [view_request url video_id], warnings = []\<rparr>"

definition mp4_file :: json where
  "mp4_file = file_entry (JStr ''http://v.afreecatv.com/a.mp4'')
                (JStr ''20170411_BE689A0E_190960999_1_2_h'')"

definition old_file :: json where
  "old_file = file_entry (JStr ''http://v.afreecatv.com/b.mp4'') (JStr ''19990401_27901457_1'')"

definition null_file :: json where
  "null_file = file_entry JNull (JStr ''20180327_27901457_202289533_1'')"

definition m3u8_file :: json where
  "m3u8_file = file_entry (JStr ''http://v.afreecatv.com/c.m3u8'') (JStr [])"

definition rtmp_file :: json where
  "rtmp_file = file_entry (JStr ''rtmp://v.afreecatv.com/app/mp4:a/b'') (JStr [])"

definition keyless_file :: json where
  "keyless_file = JDict [(''file_info_key'', JStr ''k''), (''duration'', JInt 213000)]"

definition succeed_env :: "json list \<Rightarrow> bool \<Rightarrow> vod_env" where
  "succeed_env files permissive =
     example_env [view_answer (JStr ''SUCCEED'') (JList files)] no_formats permissive"

text \<open>
  A file whose key starts with the token \<^verbatim>\<open>00010101\<close>. \<^verbatim>\<open>unified_strdate\<close> reads it as
  the first day of the year 1 and writes it back with \<^verbatim>\<open>strftime('%Y%m%d')\<close>, which does
  not pad the year: the result is \<^verbatim>\<open>10101\<close>, and \<^verbatim>\<open>strptime\<close> in \<^verbatim>\<open>date_from_str\<close>
  rejects it with \<^verbatim>\<open>ValueError\<close>. \<open>year_one_env\<close> has these two values.
\<close>

definition year_one_file :: json where
  "year_one_file = file_entry (JStr ''http://v.afreecatv.com/d.mp4'') (JStr ''00010101_A_1'')"

definition year_one_env :: vod_env where
  "year_one_env =
     (succeed_env [year_one_file] False)
       \<lparr>unified_strdate := (\<lambda>m. if m = Some ''00010101'' then Some ''10101'' else m),
        date_from_str := (\<lambda>s. if s = ''10101'' then Inl ValueError
                               else example_date_from_str s)\<rparr>"

text \<open>Two channel answers: a broadcaster who is off the air, and a protected broadcast.\<close>

definition offline_channel :: json where
  "offline_channel = JDict [(''CHANNEL'', JDict [(''RESULT'', JInt 0)])]"

definition protected_channel :: json where
  "protected_channel =
     JDict [(''CHANNEL'', JDict [(''RESULT'', JInt 1), (''BJID'', JStr ''pyh3646''),
                                (''BNO'', JStr ''237852185''), (''BPWD'', JStr ''Y'')])]"

section \<open>Properties of the negotiation loop\<close>

lemma then_do_Inl [simp]: "then_do (Inl e) f = Inl e"
  by (simp add: then_do_def)

lemma then_do_Inr [simp]: "then_do (Inr x) f = f x"
  by (simp add: then_do_def)

lemma then_do_eq_Inr: "then_do r f = Inr y \<longleftrightarrow> (\<exists>x. r = Inr x \<and> f x = Inr y)"
  by (cases r) simp_all

lemma view_loop_two:
  "view_loop 2 env url video_id pv av tr = view_loop (Suc (Suc 0)) env url video_id pv av tr"
  by (simp add: numeral_2_eq_2)

lemma snd_real_extract:
  "snd (real_extract env url video_id) = snd (view_loop 2 env url video_id False False empty_trace)"
  by (simp add: real_extract_def split: prod.splits sum.splits)

text \<open>The trace of the last iteration: one more request, and one more warning exactly
  when the flag read is \<^verbatim>\<open>PARTIAL_ADULT\<close>.\<close>

lemma view_loop_last:
  "snd (view_loop (Suc 0) env url video_id pv av tr) =
     (let tr1 = tr\<lparr>requests := requests tr @ [view_request url video_id]\<rparr>
      in if \<exists>d q. view_attempt env url video_id pv av (length (requests tr)) =
                     Inr (d, q, JStr ''PARTIAL_ADULT'')
         then tr1\<lparr>warnings := warnings tr1 @ [partial_adult_warning]\<rparr>
         else tr1)"
  by (cases "view_attempt env url video_id pv av (length (requests tr))")
     (auto simp add: Let_def)

text \<open>
  C1, as amended. When both attempts read the flag \<^verbatim>\<open>ADULT\<close> (each answer is
  downloaded, has \<^verbatim>\<open>data\<close> with \<^verbatim>\<open>station_no\<close>, \<^verbatim>\<open>bbs_no\<close> and \<^verbatim>\<open>flag\<close>, and is not the
  deletion sentinel), the resolver issues exactly two view-info requests and fails at the
  second with the age-restriction error that asks for credentials (line 216), reported as
  expected. It is not the error of the exhausted loop, and no third request is issued.
\<close>

theorem adult_twice_fails_after_two_requests:
  assumes "view_attempt env url video_id False False 0 = Inr (d0, q0, JStr ''ADULT'')"
    and "view_attempt env url video_id False True 1 = Inr (d1, q1, JStr ''ADULT'')"
  shows "real_extract env url video_id =
           (Inl AdultCredentials,
            \<lparr>requests = [view_request url video_id, view_request url video_id], warnings = []\<rparr>)"
  using assms by (simp add: real_extract_def view_loop_two empty_trace_def)

theorem adult_twice_fails_after_two_requests_witness:
  "view_attempt adult_twice_env ''u'' ''123'' False False 0 \<noteq> Inl VodDoesNotExist \<and>
   real_extract adult_twice_env ''u'' ''123'' =
     (Inl AdultCredentials,
      \<lparr>requests = [view_request ''u'' ''123'', view_request ''u'' ''123''], warnings = []\<rparr>)"
proof -
  have a0: "view_attempt adult_twice_env ''u'' ''123'' False False 0 =
      Inr (view_data (JStr ''ADULT'') (JList []),
        [(''nTitleNo'', JStr ''123''), (''nStationNo'', JInt 16711924), (''nBbsNo'', JInt 18605867)],
        JStr ''ADULT'')"
    by (simp add: adult_twice_env_def example_env_def view_answer_def view_data_def view_attempt_def
        view_query_def)
  have a1: "view_attempt adult_twice_env ''u'' ''123'' False True 1 =
      Inr (view_data (JStr ''ADULT'') (JList []),
        [(''nTitleNo'', JStr ''123''), (''nStationNo'', JInt 16711924), (''nBbsNo'', JInt 18605867),
         (''adultView'', JStr ''ADULT_VIEW'')],
        JStr ''ADULT'')"
    by (simp add: adult_twice_env_def example_env_def view_answer_def view_data_def view_attempt_def
        view_query_def)
  show ?thesis
    using adult_twice_fails_after_two_requests [OF a0 a1] a0 by simp
qed

text \<open>
  C1 as stated fails: with \<^verbatim>\<open>ADULT\<close> answered twice the failure is the age-restriction
  error, which is none of the failures the specification calls Unresolvable.
\<close>

theorem adult_twice_is_not_unresolvable:
  "fst (real_extract adult_twice_env ''u'' ''123'') = Inl AdultCredentials \<and>
   \<not> spec_unresolvable AdultCredentials"
  by (simp add: real_extract_def view_loop_two empty_trace_def adult_twice_env_def example_env_def
      view_answer_def view_data_def view_attempt_def view_query_def)

text \<open>
  C3, as amended. When the first attempt reads the flag \<^verbatim>\<open>PARTIAL_ADULT\<close>, the resolver
  reports the warning for it and issues exactly one more view-info request, two in all.
  The warning is reported once more when the second attempt reads \<^verbatim>\<open>PARTIAL_ADULT\<close>
  again, and exactly once otherwise.
\<close>

theorem partial_adult_warns_and_retries_once:
  assumes "view_attempt env url video_id False False 0 = Inr (d0, q0, JStr ''PARTIAL_ADULT'')"
  shows "length (requests (snd (real_extract env url video_id))) = 2 \<and>
         warnings (snd (real_extract env url video_id)) =
           (if \<exists>d q. view_attempt env url video_id True False 1 = Inr (d, q, JStr ''PARTIAL_ADULT'')
            then [partial_adult_warning, partial_adult_warning]
            else [partial_adult_warning])"
proof -
  let ?tr = "\<lparr>requests = [view_request url video_id], warnings = [partial_adult_warning]\<rparr>"
  have "view_loop 2 env url video_id False False empty_trace =
          view_loop (Suc 0) env url video_id True False ?tr"
    using assms by (simp add: view_loop_two empty_trace_def del: view_loop.simps(2))
       (simp add: empty_trace_def)
  then have "snd (real_extract env url video_id) =
               snd (view_loop (Suc 0) env url video_id True False ?tr)"
    by (simp only: snd_real_extract)
  then show ?thesis
    by (simp only: view_loop_last) (simp add: Let_def)
qed

theorem partial_adult_warns_and_retries_once_witness:
  "length (requests (snd (real_extract partial_twice_env ''u'' ''123''))) = 2 \<and>
   warnings (snd (real_extract partial_twice_env ''u'' ''123'')) =
     [partial_adult_warning, partial_adult_warning]"
proof -
  have a0: "view_attempt partial_twice_env ''u'' ''123'' False False 0 =
      Inr (view_data (JStr ''PARTIAL_ADULT'') (JList []),
        [(''nTitleNo'', JStr ''123''), (''nStationNo'', JInt 16711924), (''nBbsNo'', JInt 18605867)],
        JStr ''PARTIAL_ADULT'')"
    by (simp add: partial_twice_env_def example_env_def view_answer_def view_data_def view_attempt_def
        view_query_def)
  have a1: "\<exists>d q. view_attempt partial_twice_env ''u'' ''123'' True False 1 =
      Inr (d, q, JStr ''PARTIAL_ADULT'')"
    by (simp add: partial_twice_env_def example_env_def view_answer_def view_data_def view_attempt_def
        view_query_def)
  show ?thesis
    using partial_adult_warns_and_retries_once [OF a0] a1 by simp
qed

text \<open>
  C3 as stated fails: with \<^verbatim>\<open>PARTIAL_ADULT\<close> answered twice there are two warnings, and
  the second request has the form data of the first and no query, so it carries no
  \<^verbatim>\<open>partialView\<close>.
\<close>

theorem partial_adult_twice_counterexample:
  "warnings (snd (real_extract partial_twice_env ''u'' ''123'')) =
     [partial_adult_warning, partial_adult_warning] \<and>
   map req_data (requests (snd (real_extract partial_twice_env ''u'' ''123''))) =
     replicate 2 [(''nTitleNo'', ''123''), (''nApiLevel'', ''10'')] \<and>
   map req_query (requests (snd (real_extract partial_twice_env ''u'' ''123''))) = replicate 2 []"
  by (simp add: real_extract_def view_loop_two empty_trace_def partial_twice_env_def example_env_def
      view_answer_def view_data_def view_attempt_def view_query_def view_request_def
      numeral_2_eq_2)

section \<open>Properties of the record construction\<close>

lemma file_info_simps [simp]:
  "entry_id (file_info env video_id common one pos key upload_date duration formats) =
     (if truthy key then key else JStr (video_id @ ''_'' @ str_nat pos))"
  "entry_upload_date (file_info env video_id common one pos key upload_date duration formats) =
     upload_date"
  "entry_formats (file_info env video_id common one pos key upload_date duration formats) = formats"
  by (simp_all add: file_info_def)

lemma extract_entry_invalid:
  "getitem fe ''file'' = Inr fl \<Longrightarrow> url_or_none env fl = None \<or> url_or_none env fl = Some []
   \<Longrightarrow> extract_entry env video_id common one pos fe = Inr None"
  by (auto simp add: extract_entry_def)

lemma extract_entry_valid:
  assumes "getitem fe ''file'' = Inr fl" "url_or_none env fl = Some u" "u \<noteq> []"
  shows "extract_entry env video_id common one pos fe =
     then_do (getitem fe ''file_info_key'') (\<lambda>key.
     then_do (part_upload_date env key) (\<lambda>upload_date.
     then_do (getitem fe ''duration'') (\<lambda>duration.
     then_do (file_formats env video_id u) (\<lambda>formats.
       if formats = [] \<and> \<not> ignore_no_formats env then Inr None
       else Inr (Some (file_info env video_id common one pos key upload_date
                         duration formats))))))"
  using assms by (simp add: extract_entry_def)

lemma extract_entry_Inr:
  assumes "extract_entry env video_id common one pos fe = Inr r"
  obtains (skipped) "invalid_url_file env fe" "r = None"
  | (valid) fl u key upload_date duration formats where
      "getitem fe ''file'' = Inr fl" "url_or_none env fl = Some u" "u \<noteq> []"
      "getitem fe ''file_info_key'' = Inr key"
      "part_upload_date env key = Inr upload_date"
      "getitem fe ''duration'' = Inr duration"
      "file_formats env video_id u = Inr formats"
      "r = (if formats = [] \<and> \<not> ignore_no_formats env then None
            else Some (file_info env video_id common one pos key upload_date duration formats))"
proof (cases "getitem fe ''file''")
  case (Inl e)
  with assms show ?thesis by (simp add: extract_entry_def)
next
  case (Inr fl)
  show ?thesis
  proof (cases "url_or_none env fl = None \<or> url_or_none env fl = Some []")
    case True
    with Inr have "invalid_url_file env fe" by (auto simp add: invalid_url_file_def)
    moreover from extract_entry_invalid [OF Inr True] assms have "r = None" by simp
    ultimately show ?thesis by (rule skipped)
  next
    case False
    then obtain u where u: "url_or_none env fl = Some u" "u \<noteq> []" by auto
    from assms obtain key where k: "getitem fe ''file_info_key'' = Inr key"
      by (cases "getitem fe ''file_info_key''") (simp_all add: extract_entry_valid [OF Inr u])
    from assms obtain upload_date where d: "part_upload_date env key = Inr upload_date"
      by (cases "part_upload_date env key") (simp_all add: extract_entry_valid [OF Inr u] k)
    from assms obtain duration where du: "getitem fe ''duration'' = Inr duration"
      by (cases "getitem fe ''duration''") (simp_all add: extract_entry_valid [OF Inr u] k d)
    from assms obtain formats where f: "file_formats env video_id u = Inr formats"
      by (cases "file_formats env video_id u") (simp_all add: extract_entry_valid [OF Inr u] k d du)
    from assms have "r = (if formats = [] \<and> \<not> ignore_no_formats env then None
            else Some (file_info env video_id common one pos key upload_date duration formats))"
      by (auto simp add: extract_entry_valid [OF Inr u] k d du f split: if_splits)
    with Inr u k d du f show ?thesis by (rule valid)
  qed
qed


lemma invalid_not_zero_format: "invalid_url_file env fe \<Longrightarrow> \<not> zero_format_file env video_id fe"
  by (auto simp add: invalid_url_file_def zero_format_file_def split: sum.splits option.splits)

lemma extract_entries_Cons_Inr:
  assumes "extract_entries pos env video_id common one (fe # rest) = Inr es"
  obtains r es' where "extract_entry env video_id common one pos fe = Inr r"
    and "extract_entries (Suc pos) env video_id common one rest = Inr es'"
    and "es = (case r of None \<Rightarrow> es' | Some e \<Rightarrow> e # es')"
  using assms by (auto simp add: then_do_eq_Inr)

lemma extract_entries_count:
  "extract_entries pos env video_id common one fes = Inr es \<Longrightarrow>
   length es + length (filter (invalid_url_file env) fes)
     + (if ignore_no_formats env then 0 else length (filter (zero_format_file env video_id) fes))
   = length fes"
proof (induction fes arbitrary: pos es)
  case Nil
  then show ?case by simp
next
  case (Cons fe rest)
  from Cons.prems obtain r es' where
    r: "extract_entry env video_id common one pos fe = Inr r"
    and rest: "extract_entries (Suc pos) env video_id common one rest = Inr es'"
    and es: "es = (case r of None \<Rightarrow> es' | Some e \<Rightarrow> e # es')"
    by (rule extract_entries_Cons_Inr)
  note ih = Cons.IH [OF rest]
  from r show ?case
  proof (cases rule: extract_entry_Inr)
    case skipped
    with ih es show ?thesis by (auto simp add: invalid_not_zero_format)
  next
    case (valid fl u key upload_date duration formats)
    then have "\<not> invalid_url_file env fe" "zero_format_file env video_id fe \<longleftrightarrow> formats = []"
      by (simp_all add: invalid_url_file_def zero_format_file_def)
    with ih es valid(8) show ?thesis by (cases "formats = []") auto
  qed
qed

lemma extract_entries_ids:
  assumes "extract_entries pos env video_id common one fes = Inr es" and "e \<in> set es"
  shows "\<exists>p fe key. (p, fe) \<in> set (enumerate pos fes) \<and>
      extract_entry env video_id common one p fe = Inr (Some e) \<and>
      getitem fe ''file_info_key'' = Inr key \<and>
      entry_id e = (if truthy key then key else JStr (video_id @ ''_'' @ str_nat p))"
proof -
  define P where "P p fe \<longleftrightarrow> extract_entry env video_id common one p fe = Inr (Some e) \<and>
    (\<exists>key. getitem fe ''file_info_key'' = Inr key \<and>
      entry_id e = (if truthy key then key else JStr (video_id @ ''_'' @ str_nat p)))" for p fe
  from assms have "\<exists>p fe. (p, fe) \<in> set (enumerate pos fes) \<and> P p fe"
  proof (induction fes arbitrary: pos es)
    case Nil
    then show ?case by simp
  next
    case (Cons fe rest)
    from Cons.prems(1) obtain r es' where
      r: "extract_entry env video_id common one pos fe = Inr r"
      and rest: "extract_entries (Suc pos) env video_id common one rest = Inr es'"
      and es: "es = (case r of None \<Rightarrow> es' | Some e \<Rightarrow> e # es')"
      by (rule extract_entries_Cons_Inr)
    from es Cons.prems(2) consider (head) "r = Some e" | (tail) "e \<in> set es'"
      by (cases r) auto
    then show ?case
    proof cases
      case head
      from r have "P pos fe"
      proof (cases rule: extract_entry_Inr)
        case skipped
        with head show ?thesis by simp
      next
        case (valid fl u key upload_date duration formats)
        from valid(8) head
        have "e = file_info env video_id common one pos key upload_date duration formats"
          by (simp split: if_splits)
        with valid(4) r head show ?thesis unfolding P_def by simp
      qed
      moreover have "(pos, fe) \<in> set (enumerate pos (fe # rest))"
        by (simp add: enumerate_simps)
      ultimately show ?thesis by blast
    next
      case tail
      from Cons.IH [OF rest tail] obtain p fe' where
        "(p, fe') \<in> set (enumerate (Suc pos) rest)" "P p fe'" by blast
      moreover then have "(p, fe') \<in> set (enumerate pos (fe # rest))"
        by (simp add: enumerate_simps)
      ultimately show ?thesis by blast
    qed
  qed
  then show ?thesis unfolding P_def by blast
qed

lemma extract_entries_all_skipped:
  "\<forall>(p, fe)\<in>set (enumerate pos fes). extract_entry env video_id common one p fe = Inr None \<Longrightarrow>
   extract_entries pos env video_id common one fes = Inr []"
  by (induction fes arbitrary: pos) (simp_all add: enumerate_simps)

lemma extract_entries_formats:
  "extract_entries pos env video_id common one fes = Inr es \<Longrightarrow> \<not> ignore_no_formats env \<Longrightarrow>
   e \<in> set es \<Longrightarrow> entry_formats e \<noteq> []"
proof (induction fes arbitrary: pos es)
  case Nil
  then show ?case by simp
next
  case (Cons fe rest)
  from Cons.prems(1) obtain r es' where
    r: "extract_entry env video_id common one pos fe = Inr r"
    and rest: "extract_entries (Suc pos) env video_id common one rest = Inr es'"
    and es: "es = (case r of None \<Rightarrow> es' | Some e \<Rightarrow> e # es')"
    by (rule extract_entries_Cons_Inr)
  show ?case
  proof (cases r)
    case None
    with es Cons.prems Cons.IH [OF rest] show ?thesis by simp
  next
    case (Some e0)
    from r have "entry_formats e0 \<noteq> []"
    proof (cases rule: extract_entry_Inr)
      case skipped
      with Some show ?thesis by simp
    next
      case (valid fl u key upload_date duration formats)
      with Some Cons.prems(2) show ?thesis by (auto split: if_splits)
    qed
    with es Some Cons.prems Cons.IH [OF rest] show ?thesis by auto
  qed
qed

lemma single_info_blank:
  "single_info env video_id common [] = Inr r \<Longrightarrow> \<exists>formats. r = SingleFormats common formats"
  by (auto simp add: single_info_def unpack2_def then_do_eq_Inr split: if_splits)

lemma getitem_Inr_str_strip: "getitem j k = Inr v \<Longrightarrow> str_strip j = None"
  by (cases j) simp_all

lemma real_extract_loop:
  "view_loop 2 env url video_id False False empty_trace = (Inr data, tr) \<Longrightarrow>
   real_extract env url video_id = (build_info env video_id data, tr)"
  by (simp add: real_extract_def)

lemma build_info_Inr:
  assumes "build_info env video_id data = Inr r"
    and "getitem data ''files'' = Inr files" and "getitem_last files = Inr ve"
  obtains (multi) common es where "str_strip ve \<noteq> Some []" "info_id common = video_id"
      "extract_entries 1 env video_id common (length (elements files) = 1) (elements files) = Inr es"
      "r = MultiVideo common es"
  | (single) common formats where "str_strip ve = Some []" "r = SingleFormats common formats"
proof -
  from assms have nn: "ve \<noteq> JNull"
    by (auto simp add: build_info_def)
  from assms nn obtain title where t: "getitem data ''title'' = Inr title"
    by (cases "getitem data ''title''") (simp_all add: build_info_def)
  from assms nn obtain uploader where u: "getitem data ''writer_nick'' = Inr uploader"
    by (cases "getitem data ''writer_nick''") (simp_all add: build_info_def t)
  from assms nn obtain uploader_id where ui: "getitem data ''bj_id'' = Inr uploader_id"
    by (cases "getitem data ''bj_id''") (simp_all add: build_info_def t u)
  from assms nn obtain duration where d: "getitem data ''total_file_duration'' = Inr duration"
    by (cases "getitem data ''total_file_duration''") (simp_all add: build_info_def t u ui)
  from assms nn obtain thumbnail where th: "getitem data ''thumb'' = Inr thumbnail"
    by (cases "getitem data ''thumb''") (simp_all add: build_info_def t u ui d)
  define common where "common =
    \<lparr>info_id = video_id, info_title = title, info_uploader = uploader,
     info_uploader_id = uploader_id, info_duration = duration, info_thumbnail = thumbnail\<rparr>"
  have eq: "build_info env video_id data =
      (case str_strip ve of
         None \<Rightarrow> then_do (extract_entries 1 env video_id common (length (elements files) = 1)
                            (elements files)) (\<lambda>entries. Inr (MultiVideo common entries))
       | Some video_url \<Rightarrow>
           if video_url \<noteq> []
           then then_do (extract_entries 1 env video_id common (length (elements files) = 1)
                            (elements files)) (\<lambda>entries. Inr (MultiVideo common entries))
           else single_info env video_id common video_url)"
    using assms(2,3) nn
    by (simp add: build_info_def t u ui d th common_def Let_def split: option.splits)
  show ?thesis
  proof (cases "str_strip ve = Some []")
    case True
    with eq assms(1) have "single_info env video_id common [] = Inr r" by simp
    then obtain formats where "r = SingleFormats common formats"
      using single_info_blank by blast
    with True show ?thesis by (rule single)
  next
    case False
    with eq have "build_info env video_id data =
        then_do (extract_entries 1 env video_id common (length (elements files) = 1)
                   (elements files)) (\<lambda>entries. Inr (MultiVideo common entries))"
      by (cases "str_strip ve") auto
    with assms(1) obtain es where
      "extract_entries 1 env video_id common (length (elements files) = 1) (elements files) = Inr es"
      "r = MultiVideo common es"
      by (auto simp add: then_do_eq_Inr)
    moreover have "info_id common = video_id" by (simp add: common_def)
    ultimately show ?thesis using False multi by blast
  qed
qed

lemma succeed_env_loop:
  "view_loop 2 (succeed_env files permissive) url video_id False False empty_trace =
     (Inr (view_data (JStr ''SUCCEED'') (JList files)), one_request url video_id)"
  by (simp add: view_loop_two succeed_env_def example_env_def view_answer_def view_data_def
      view_attempt_def view_query_def empty_trace_def one_request_def)

lemma view_data_fields:
  "getitem (view_data flag files) ''files'' = Inr files"
  "getitem (view_data flag files) ''title'' = Inr (JStr ''title'')"
  "getitem (view_data flag files) ''writer_nick'' = Inr (JStr ''nick'')"
  "getitem (view_data flag files) ''bj_id'' = Inr (JStr ''bj'')"
  "getitem (view_data flag files) ''total_file_duration'' = Inr (JInt 213000)"
  "getitem (view_data flag files) ''thumb'' = Inr (JStr ''http://videoimg.afreecatv.com/t.jpg'')"
  by (simp_all add: view_data_def)

lemma mp4_file_entry:
  "extract_entry (succeed_env files permissive) video_id common one pos mp4_file =
     Inr (Some (file_info (succeed_env files permissive) video_id common one pos
       (JStr ''20170411_BE689A0E_190960999_1_2_h'') (Some ''20170411'') (JInt 213000)
       [\<lparr>fmt_url = ''http://v.afreecatv.com/a.mp4'', fmt_format_id = ''http''\<rparr>]))"
  by code_simp

lemma old_file_entry:
  "extract_entry (succeed_env files permissive) video_id common one pos old_file =
     Inr (Some (file_info (succeed_env files permissive) video_id common one pos
       (JStr ''19990401_27901457_1'') None (JInt 213000)
       [\<lparr>fmt_url = ''http://v.afreecatv.com/b.mp4'', fmt_format_id = ''http''\<rparr>]))"
  by code_simp

lemma null_file_entry:
  "extract_entry (succeed_env files permissive) video_id common one pos null_file = Inr None"
  by code_simp

lemma m3u8_file_entry:
  "extract_entry (succeed_env files False) video_id common one pos m3u8_file = Inr None"
  "extract_entry (succeed_env files True) video_id common one pos m3u8_file =
     Inr (Some (file_info (succeed_env files True) video_id common one pos
                 (JStr []) None (JInt 213000) []))"
  by code_simp+

lemma mp4_run:
  "fst (real_extract (succeed_env [mp4_file] False) ''u'' ''20515605'') =
     Inr (MultiVideo (example_common ''20515605'')
       [file_info (succeed_env [mp4_file] False) ''20515605'' (example_common ''20515605'') True 1
          (JStr ''20170411_BE689A0E_190960999_1_2_h'') (Some ''20170411'') (JInt 213000)
          [\<lparr>fmt_url = ''http://v.afreecatv.com/a.mp4'', fmt_format_id = ''http''\<rparr>]])"
  by code_simp

text \<open>
  C2, as amended. For every successful VOD resolution the record is the multi-part one
  (\<^verbatim>\<open>multi_video\<close>) exactly when the last element of the file list is not a blank string,
  which holds for every file object, whatever the number of files and the scheme of their
  URLs. When the list holds exactly one file whose URL \<^verbatim>\<open>url_or_none\<close> accepts and whose
  extension is not \<^verbatim>\<open>m3u8\<close>, that multi-part record has exactly one entry, and the entry
  has exactly one source: the progressive one (\<^verbatim>\<open>format_id\<close> \<^verbatim>\<open>http\<close>) at that URL. The
  \<^verbatim>\<open>mp4:\<close> marker plays no part.
\<close>

theorem multi_video_unless_blank:
  assumes "view_loop 2 env url video_id False False empty_trace = (Inr data, tr)"
    and "fst (real_extract env url video_id) = Inr r"
    and "getitem data ''files'' = Inr files" and "getitem_last files = Inr video_element"
  shows "((\<exists>common entries. r = MultiVideo common entries) \<longleftrightarrow> str_strip video_element \<noteq> Some [])
    \<and> (\<forall>fe fl u. files = JList [fe] \<and> getitem fe ''file'' = Inr fl \<and> url_or_none env fl = Some u
           \<and> u \<noteq> [] \<and> determine_ext env u \<noteq> ''m3u8'' \<longrightarrow>
         (\<exists>common e. r = MultiVideo common [e] \<and>
            entry_formats e = [\<lparr>fmt_url = u, fmt_format_id = ''http''\<rparr>]))"
proof -
  from assms(1,2) have b: "build_info env video_id data = Inr r"
    by (simp add: real_extract_loop)
  from b assms(3,4) show ?thesis
  proof (cases rule: build_info_Inr)
    case (multi common es)
    have "\<exists>e. es = [e] \<and> entry_formats e = [\<lparr>fmt_url = u, fmt_format_id = ''http''\<rparr>]"
      if f: "files = JList [fe]" and g: "getitem fe ''file'' = Inr fl"
        and u: "url_or_none env fl = Some u" "u \<noteq> []" and ext: "determine_ext env u \<noteq> ''m3u8''"
      for fe fl u
    proof -
      from multi(3) f obtain r0 where
        r0: "extract_entry env video_id common True 1 fe = Inr r0"
        and es: "es = (case r0 of None \<Rightarrow> [] | Some e \<Rightarrow> [e])"
        by (auto simp add: then_do_eq_Inr)
      from r0 show ?thesis
      proof (cases rule: extract_entry_Inr)
        case skipped
        with g u show ?thesis by (simp add: invalid_url_file_def)
      next
        case (valid fl' u' key upload_date duration formats)
        with g u ext have "formats = [\<lparr>fmt_url = u, fmt_format_id = ''http''\<rparr>]"
          by (simp add: file_formats_def)
        with valid(8) es show ?thesis by simp
      qed
    qed
    with multi show ?thesis by blast
  next
    case (single common formats)
    have "files \<noteq> JList [fe]" if "getitem fe ''file'' = Inr fl" for fe fl
      using that single(1) assms(4) by (auto dest: getitem_Inr_str_strip)
    with single show ?thesis by auto
  qed
qed

theorem multi_video_unless_blank_witness:
  "str_strip mp4_file \<noteq> Some [] \<and>
   (\<exists>common e. fst (real_extract (succeed_env [mp4_file] False) ''u'' ''20515605'') =
        Inr (MultiVideo common [e]) \<and>
      entry_formats e = [\<lparr>fmt_url = ''http://v.afreecatv.com/a.mp4'', fmt_format_id = ''http''\<rparr>])"
proof -
  let ?env = "succeed_env [mp4_file] False"
  note ok = mp4_run
  have l: "getitem_last (JList [mp4_file]) = Inr mp4_file" by simp
  have u: "getitem mp4_file ''file'' = Inr (JStr ''http://v.afreecatv.com/a.mp4'')"
    "url_or_none ?env (JStr ''http://v.afreecatv.com/a.mp4'') = Some ''http://v.afreecatv.com/a.mp4''"
    "determine_ext ?env ''http://v.afreecatv.com/a.mp4'' \<noteq> ''m3u8''"
    by code_simp+
  from multi_video_unless_blank [OF succeed_env_loop ok view_data_fields(1) l] u ok
  show ?thesis by auto
qed

text \<open>
  C2 as stated fails: one file, with no manifest extension and no \<^verbatim>\<open>mp4:\<close> marker, gives
  the multi-part record with one entry, not a single item.
\<close>

theorem single_file_is_multi_video:
  "fst (real_extract (succeed_env [mp4_file] False) ''u'' ''20515605'') =
     Inr (MultiVideo (example_common ''20515605'')
       [file_info (succeed_env [mp4_file] False) ''20515605'' (example_common ''20515605'') True 1
          (JStr ''20170411_BE689A0E_190960999_1_2_h'') (Some ''20170411'') (JInt 213000)
          [\<lparr>fmt_url = ''http://v.afreecatv.com/a.mp4'', fmt_format_id = ''http''\<rparr>]]) \<and>
   determine_ext (succeed_env [mp4_file] False) ''http://v.afreecatv.com/a.mp4'' = ''mp4'' \<and>
   \<not> occurs ''mp4:'' ''http://v.afreecatv.com/a.mp4''"
  by code_simp

text \<open>
  C4, as amended. When the negotiation ended with data whose file list is not empty and
  every iteration of the file loop ends in \<^verbatim>\<open>continue\<close> (line 258 or line 282), so that no
  source is resolved, the resolver returns the multi-part record with an empty list of
  entries: an empty success, not an error.
\<close>

theorem no_sources_is_empty_success:
  assumes "view_loop 2 env url video_id False False empty_trace = (Inr data, tr)"
    and "getitem data ''files'' = Inr (JList fes)" and "fes \<noteq> []"
    and "getitem data ''title'' = Inr title"
    and "getitem data ''writer_nick'' = Inr uploader"
    and "getitem data ''bj_id'' = Inr uploader_id"
    and "getitem data ''total_file_duration'' = Inr duration"
    and "getitem data ''thumb'' = Inr thumbnail"
    and "common = \<lparr>info_id = video_id, info_title = title, info_uploader = uploader,
                   info_uploader_id = uploader_id, info_duration = duration,
                   info_thumbnail = thumbnail\<rparr>"
    and "\<forall>(pos, fe)\<in>set (enumerate 1 fes).
           extract_entry env video_id common (length fes = 1) pos fe = Inr None"
  shows "real_extract env url video_id = (Inr (MultiVideo common []), tr)"
proof -
  from assms(3) have "0 < length fes" "fes ! (length fes - 1) = last fes"
    by (simp_all add: last_conv_nth)
  then have "(length fes, last fes) \<in> set (enumerate 1 fes)"
    by (simp add: in_set_enumerate_eq Suc_le_eq)
  with assms(10) have "extract_entry env video_id common (length fes = 1)
      (length fes) (last fes) = Inr None"
    by blast
  then obtain fl where "getitem (last fes) ''file'' = Inr fl"
    by (cases "getitem (last fes) ''file''") (simp_all add: extract_entry_def)
  then have l: "last fes \<noteq> JNull" "str_strip (last fes) = None"
    by (auto dest: getitem_Inr_str_strip)
  have "extract_entries 1 env video_id common (length fes = 1) fes = Inr []"
    using assms(10) by (rule extract_entries_all_skipped)
  then have "build_info env video_id data = Inr (MultiVideo common [])"
    using assms(2-9) l by (simp add: build_info_def Let_def)
  with assms(1) show ?thesis by (simp add: real_extract_loop)
qed

theorem no_sources_is_empty_success_witness:
  "real_extract (succeed_env [null_file, m3u8_file] False) ''u'' ''97267690'' =
     (Inr (MultiVideo (example_common ''97267690'') []), one_request ''u'' ''97267690'')"
proof -
  let ?env = "succeed_env [null_file, m3u8_file] False"
  have skipped: "\<forall>(pos, fe)\<in>set (enumerate 1 [null_file, m3u8_file]).
      extract_entry ?env ''97267690'' (example_common ''97267690'')
        (length [null_file, m3u8_file] = 1) pos fe = Inr None"
    by (simp add: enumerate_simps null_file_entry m3u8_file_entry)
  show ?thesis
    by (rule no_sources_is_empty_success [OF succeed_env_loop view_data_fields(1) _
          view_data_fields(2-6) _ skipped])
       (simp_all add: example_common_def)
qed

text \<open>
  C4 as stated fails: a file list whose only file has a null URL resolves to a record
  without entries, and no error is raised.
\<close>

theorem null_file_is_empty_success:
  "fst (real_extract (succeed_env [null_file] False) ''u'' ''97267690'') =
     Inr (MultiVideo (example_common ''97267690'') [])"
  by code_simp

lemma three_files_run:
  "fst (real_extract (succeed_env [mp4_file, null_file, m3u8_file] True) ''u'' ''36153164'') =
     Inr (MultiVideo (example_common ''36153164'')
       [file_info (succeed_env [mp4_file, null_file, m3u8_file] True) ''36153164''
          (example_common ''36153164'') False 1
          (JStr ''20170411_BE689A0E_190960999_1_2_h'') (Some ''20170411'') (JInt 213000)
          [\<lparr>fmt_url = ''http://v.afreecatv.com/a.mp4'', fmt_format_id = ''http''\<rparr>],
        file_info (succeed_env [mp4_file, null_file, m3u8_file] True) ''36153164''
          (example_common ''36153164'') False 3 (JStr []) None (JInt 213000) []])"
  by code_simp

text \<open>
  C6, as amended. For every resolution that returns a multi-part record, the number of
  entries is the number of file elements, minus those whose \<^verbatim>\<open>file\<close> value is not an
  accepted URL (they are dropped with and without the permissive option), minus, unless
  the permissive option is set, those whose accepted URL gives an empty list of formats.
  Every entry comes from the iteration of one file element; its identifier is the key of
  that element when the key is truthy, and otherwise the video id, an underscore and the
  1-based position of that element in the file list.
\<close>

theorem multi_part_count_and_ids:
  assumes "view_loop 2 env url video_id False False empty_trace = (Inr data, tr)"
    and "fst (real_extract env url video_id) = Inr (MultiVideo common entries)"
    and "getitem data ''files'' = Inr files"
  shows "length entries + length (filter (invalid_url_file env) (elements files))
           + (if ignore_no_formats env then 0
              else length (filter (zero_format_file env video_id) (elements files)))
         = length (elements files)
       \<and> (\<forall>e\<in>set entries. \<exists>pos fe key. (pos, fe) \<in> set (enumerate 1 (elements files)) \<and>
            extract_entry env video_id common (length (elements files) = 1) pos fe = Inr (Some e) \<and>
            getitem fe ''file_info_key'' = Inr key \<and>
            entry_id e = (if truthy key then key else JStr (video_id @ ''_'' @ str_nat pos)))"
proof -
  from assms(1,2) have b: "build_info env video_id data = Inr (MultiVideo common entries)"
    by (simp add: real_extract_loop)
  with assms(3) obtain ve where ve: "getitem_last files = Inr ve"
    by (cases "getitem_last files") (simp_all add: build_info_def)
  from b assms(3) ve show ?thesis
  proof (cases rule: build_info_Inr)
    case (multi common' es)
    then have ex: "extract_entries 1 env video_id common (length (elements files) = 1)
                     (elements files) = Inr entries"
      by simp
    show ?thesis
      using extract_entries_count [OF ex] extract_entries_ids [OF ex] by blast
  next
    case (single common' formats)
    then show ?thesis by simp
  qed
qed

theorem multi_part_count_and_ids_witness:
  "length (filter (invalid_url_file (succeed_env [mp4_file, null_file, m3u8_file] True))
      [mp4_file, null_file, m3u8_file]) = 1 \<and>
   (\<exists>common entries.
      fst (real_extract (succeed_env [mp4_file, null_file, m3u8_file] True) ''u'' ''36153164'') =
        Inr (MultiVideo common entries) \<and>
      length entries + 1 = 3 \<and>
      map entry_id entries = [JStr ''20170411_BE689A0E_190960999_1_2_h'', JStr ''36153164_3''])"
proof -
  let ?env = "succeed_env [mp4_file, null_file, m3u8_file] True"
  have inv: "length (filter (invalid_url_file ?env) [mp4_file, null_file, m3u8_file]) = 1"
    by code_simp
  have perm: "ignore_no_formats ?env" by code_simp
  have ids: "entry_id (file_info ?env ''36153164'' (example_common ''36153164'') False 1
          (JStr ''20170411_BE689A0E_190960999_1_2_h'') (Some ''20170411'') (JInt 213000)
          [\<lparr>fmt_url = ''http://v.afreecatv.com/a.mp4'', fmt_format_id = ''http''\<rparr>]) =
        JStr ''20170411_BE689A0E_190960999_1_2_h''"
     "entry_id (file_info ?env ''36153164'' (example_common ''36153164'') False 3 (JStr []) None
          (JInt 213000) []) = JStr ''36153164_3''"
    by code_simp+
  from multi_part_count_and_ids [OF succeed_env_loop three_files_run view_data_fields(1)]
  have "length
     [file_info ?env ''36153164'' (example_common ''36153164'') False 1
          (JStr ''20170411_BE689A0E_190960999_1_2_h'') (Some ''20170411'') (JInt 213000)
          [\<lparr>fmt_url = ''http://v.afreecatv.com/a.mp4'', fmt_format_id = ''http''\<rparr>],
      file_info ?env ''36153164'' (example_common ''36153164'') False 3 (JStr []) None
          (JInt 213000) []] + 1 = 3"
    using inv perm by simp
  with inv ids three_files_run show ?thesis by simp
qed

text \<open>
  C6 as stated fails: with the permissive option set, a list of one file whose URL is null
  gives no entry, where the claim counts one.
\<close>

theorem permissive_null_file_is_dropped:
  "ignore_no_formats (succeed_env [null_file] True) \<and>
   length (elements (JList [null_file])) = 1 \<and>
   fst (real_extract (succeed_env [null_file] True) ''u'' ''97267690'') =
     Inr (MultiVideo (example_common ''97267690'') [])"
  by code_simp

lemma search_upload_date_prefix:
  "length d = 8 \<Longrightarrow> list_all is_digit d \<Longrightarrow> search_upload_date (d @ CHR ''_'' # rest) = Some d"
  by (simp add: search_upload_date_def nth_append)

text \<open>
  What lines 260 to 268 do when \<^verbatim>\<open>date_from_str\<close> returns: for a file that becomes an
  entry and whose key starts with eight digits and an underscore, the upload date of the
  entry is absent if the parsed year is below 2000 or at least 2100, and is the parsed
  date otherwise.
\<close>

lemma upload_date_when_date_parses:
  assumes "extract_entry env video_id common one pos fe = Inr (Some e)"
    and "getitem fe ''file_info_key'' = Inr (JStr (d @ CHR ''_'' # rest))"
    and "length d = 8" and "list_all is_digit d"
    and "unified_strdate env (Some d) = Some upload_date"
    and "date_from_str env upload_date = Inr parsed_date"
  shows "entry_upload_date e =
           (if year parsed_date < 2000 \<or> 2100 \<le> year parsed_date then None else Some upload_date)"
proof -
  have "part_upload_date env (JStr (d @ CHR ''_'' # rest)) =
          Inr (if year parsed_date < 2000 \<or> 2100 \<le> year parsed_date then None else Some upload_date)"
    using assms(3-6) by (simp add: part_upload_date_def search_upload_date_prefix)
  with assms(1,2) show ?thesis
    by (cases rule: extract_entry_Inr) (simp_all split: if_splits)
qed

lemma upload_date_when_date_parses_example:
  "(\<exists>e. extract_entry (succeed_env [old_file] False) ''97267690'' (example_common ''97267690'')
          True 1 old_file = Inr (Some e) \<and> entry_upload_date e = None) \<and>
   (\<exists>e. extract_entry (succeed_env [mp4_file] False) ''20515605'' (example_common ''20515605'')
          True 1 mp4_file = Inr (Some e) \<and> entry_upload_date e = Some ''20170411'')"
proof -
  have k1: "getitem old_file ''file_info_key'' = Inr (JStr (''19990401'' @ CHR ''_'' # ''27901457_1''))"
    by code_simp
  have d1: "length ''19990401'' = 8" "list_all is_digit ''19990401''"
    "unified_strdate (succeed_env [old_file] False) (Some ''19990401'') = Some ''19990401''"
    "date_from_str (succeed_env [old_file] False) ''19990401'' =
       Inr \<lparr>year = 1999, month = 4, day = 1\<rparr>"
    by code_simp+
  have k2: "getitem mp4_file ''file_info_key'' =
      Inr (JStr (''20170411'' @ CHR ''_'' # ''BE689A0E_190960999_1_2_h''))"
    by code_simp
  have d2: "length ''20170411'' = 8" "list_all is_digit ''20170411''"
    "unified_strdate (succeed_env [mp4_file] False) (Some ''20170411'') = Some ''20170411''"
    "date_from_str (succeed_env [mp4_file] False) ''20170411'' =
       Inr \<lparr>year = 2017, month = 4, day = 11\<rparr>"
    by code_simp+
  from upload_date_when_date_parses [OF old_file_entry k1 d1]
    upload_date_when_date_parses [OF mp4_file_entry k2 d2]
  show ?thesis by (simp add: old_file_entry mp4_file_entry)
qed

text \<open>
  C7. A date whose year is outside 2000 to 2099 is to be discarded, and the comment of
  lines 263 to 265 says so for tokens that are no dates at all. The code does it only when
  \<^verbatim>\<open>date_from_str\<close> returns. For the key \<^verbatim>\<open>00010101_A_1\<close>, which starts with eight digits
  and an underscore and whose year 1 is below 2000, the call of line 266 raises
  \<^verbatim>\<open>ValueError\<close>: the date is not discarded, the file gives no entry, and the whole
  resolution fails.
\<close>

theorem year_one_key_raises:
  "search_upload_date ''00010101_A_1'' = Some ''00010101'' \<and>
   part_upload_date year_one_env (JStr ''00010101_A_1'') = Inl ValueError \<and>
   extract_entry year_one_env ''97267690'' (example_common ''97267690'') True 1 year_one_file =
     Inl ValueError \<and>
   fst (real_extract year_one_env ''u'' ''97267690'') = Inl ValueError"
  by code_simp

lemma ignore_irrelevant [simp]:
  "part_upload_date (env\<lparr>ignore_no_formats := b\<rparr>) key = part_upload_date env key"
  "file_formats (env\<lparr>ignore_no_formats := b\<rparr>) video_id u = file_formats env video_id u"
  "file_info (env\<lparr>ignore_no_formats := b\<rparr>) video_id common one pos key upload_date duration formats
     = file_info env video_id common one pos key upload_date duration formats"
  by (simp_all add: part_upload_date_def file_formats_def file_info_def cong: option.case_cong)

lemma extract_entry_ignore:
  assumes "\<not> zero_format_file env video_id fe"
  shows "extract_entry (env\<lparr>ignore_no_formats := b\<rparr>) video_id common one pos fe =
         extract_entry env video_id common one pos fe"
proof (cases "getitem fe ''file''")
  case (Inl e)
  then show ?thesis by (simp add: extract_entry_def)
next
  case (Inr fl)
  show ?thesis
  proof (cases "url_or_none env fl = None \<or> url_or_none env fl = Some []")
    case True
    with Inr show ?thesis by (auto simp add: extract_entry_def)
  next
    case False
    then obtain u where u: "url_or_none env fl = Some u" "u \<noteq> []" by auto
    with Inr assms have nz: "file_formats env video_id u \<noteq> Inr []"
      by (simp add: zero_format_file_def)
    from u have u': "url_or_none (env\<lparr>ignore_no_formats := b\<rparr>) fl = Some u" by simp
    show ?thesis
      unfolding extract_entry_valid [OF Inr u] extract_entry_valid [OF Inr u' u(2)]
      using nz
      by (cases "getitem fe ''file_info_key''"; cases "getitem fe ''duration''";
          cases "file_formats env video_id u")
         (auto simp add: then_do_def split: sum.splits)
  qed
qed

text \<open>
  C10, as amended. A file element whose \<^verbatim>\<open>file\<close> value is present and is not an accepted
  URL (\<^verbatim>\<open>null\<close> included) ends its iteration without an entry and without an error, with
  and without the permissive option, and the loop goes on with the next file. The
  permissive option changes the outcome of an iteration only for a file whose URL is
  accepted and whose formats are the empty list.
\<close>

theorem invalid_url_file_is_skipped:
  "(getitem fe ''file'' = Inr fl \<and> (url_or_none env fl = None \<or> url_or_none env fl = Some []) \<longrightarrow>
      extract_entry env video_id common one pos fe = Inr None \<and>
      extract_entry (env\<lparr>ignore_no_formats := True\<rparr>) video_id common one pos fe = Inr None \<and>
      extract_entries pos env video_id common one (fe # rest) =
        extract_entries (Suc pos) env video_id common one rest) \<and>
   (extract_entry (env\<lparr>ignore_no_formats := True\<rparr>) video_id common one pos fe \<noteq>
      extract_entry (env\<lparr>ignore_no_formats := False\<rparr>) video_id common one pos fe \<longrightarrow>
      zero_format_file env video_id fe)"
proof (intro conjI impI)
  assume a: "getitem fe ''file'' = Inr fl \<and>
    (url_or_none env fl = None \<or> url_or_none env fl = Some [])"
  then show s: "extract_entry env video_id common one pos fe = Inr None"
    by (auto simp add: extract_entry_def)
  from a show "extract_entry (env\<lparr>ignore_no_formats := True\<rparr>) video_id common one pos fe = Inr None"
    by (auto simp add: extract_entry_def)
  from s show "extract_entries pos env video_id common one (fe # rest) =
        extract_entries (Suc pos) env video_id common one rest"
    by (cases "extract_entries (Suc pos) env video_id common one rest") simp_all
next
  assume "extract_entry (env\<lparr>ignore_no_formats := True\<rparr>) video_id common one pos fe \<noteq>
      extract_entry (env\<lparr>ignore_no_formats := False\<rparr>) video_id common one pos fe"
  then have "\<not> (extract_entry (env\<lparr>ignore_no_formats := True\<rparr>) video_id common one pos fe =
        extract_entry env video_id common one pos fe \<and>
      extract_entry (env\<lparr>ignore_no_formats := False\<rparr>) video_id common one pos fe =
        extract_entry env video_id common one pos fe)"
    by auto
  then show "zero_format_file env video_id fe"
    using extract_entry_ignore by blast
qed

theorem invalid_url_file_is_skipped_witness:
  "extract_entry (succeed_env [null_file, m3u8_file] False) ''97267690''
     (example_common ''97267690'') False 1 null_file = Inr None \<and>
   extract_entry (succeed_env [null_file, m3u8_file] False\<lparr>ignore_no_formats := True\<rparr>)
     ''97267690'' (example_common ''97267690'') False 1 null_file = Inr None \<and>
   zero_format_file (succeed_env [null_file, m3u8_file] False) ''97267690'' m3u8_file"
proof -
  let ?env = "succeed_env [null_file, m3u8_file] False"
  have n: "getitem null_file ''file'' = Inr JNull \<and>
      (url_or_none ?env JNull = None \<or> url_or_none ?env JNull = Some [])"
    by code_simp
  have m: "extract_entry (?env\<lparr>ignore_no_formats := True\<rparr>) ''97267690''
        (example_common ''97267690'') False 2 m3u8_file \<noteq>
      extract_entry (?env\<lparr>ignore_no_formats := False\<rparr>) ''97267690''
        (example_common ''97267690'') False 2 m3u8_file"
    by code_simp
  from invalid_url_file_is_skipped [of null_file JNull ?env "''97267690''"
      "example_common ''97267690''" False 1 "[m3u8_file]"]
    invalid_url_file_is_skipped [of m3u8_file JNull ?env "''97267690''"
      "example_common ''97267690''" False 2 "[]"]
    n m
  show ?thesis by blast
qed

text \<open>
  C10 as stated fails for a file element that has no \<^verbatim>\<open>file\<close> key at all:
  \<^verbatim>\<open>file_element['file']\<close> raises \<^verbatim>\<open>KeyError\<close>, and so does the resolver.
\<close>

theorem keyless_file_raises:
  "extract_entry (succeed_env [keyless_file] True) ''97267690'' (example_common ''97267690'')
     True 1 keyless_file = Inl (KeyError ''file'') \<and>
   fst (real_extract (succeed_env [keyless_file] True) ''u'' ''97267690'') = Inl (KeyError ''file'')"
  by code_simp

subsection \<open>The single item\<close>

lemma py_split_no_occurrence:
  "sep \<noteq> [] \<Longrightarrow> \<not> occurs sep s \<Longrightarrow> py_split sep cur s = [rev cur @ s]"
  by (induction s arbitrary: cur) simp_all

lemma py_split_first:
  "sep \<noteq> [] \<Longrightarrow> \<not> occurs sep (a @ butlast sep) \<Longrightarrow>
   py_split sep cur (a @ sep @ b) = (rev cur @ a) # py_split sep [] b"
proof (induction a arbitrary: cur)
  case Nil
  then obtain c cs where "sep = c # cs" by (cases sep) auto
  then show ?case by simp
next
  case (Cons x a)
  from Cons.prems(1) have len: "length sep \<le> length (x # a @ butlast sep)" by simp
  from Cons.prems(2) have "take (length sep) (x # a @ butlast sep) \<noteq> sep"
    and rest: "\<not> occurs sep (a @ butlast sep)"
    by simp_all
  moreover have "x # a @ sep @ b = (x # a @ butlast sep) @ last sep # b"
    using Cons.prems(1) by simp
  ultimately have "take (length sep) (x # a @ sep @ b) \<noteq> sep"
    using len by (simp only: take_append) simp
  with Cons.IH [OF Cons.prems(1) rest, of "x # cur"] show ?case by simp
qed

lemma real_extract_Inr:
  "fst (real_extract env url video_id) = Inr r \<Longrightarrow> \<exists>data. build_info env video_id data = Inr r"
  by (auto simp add: real_extract_def split: prod.splits sum.splits)

lemma build_info_not_rtmp: "build_info env video_id data \<noteq> Inr (SingleRtmp common src)"
proof
  assume b: "build_info env video_id data = Inr (SingleRtmp common src)"
  then obtain files where f: "getitem data ''files'' = Inr files"
    by (cases "getitem data ''files''") (simp_all add: build_info_def)
  with b obtain ve where ve: "getitem_last files = Inr ve"
    by (cases "getitem_last files") (simp_all add: build_info_def)
  from b f ve show False
    by (cases rule: build_info_Inr) simp_all
qed

text \<open>
  C5, as amended. The single-item step (lines 308 to 319), given a URL that is not a
  manifest and in which \<^verbatim>\<open>mp4:\<close> occurs exactly once, cuts the URL at the marker into the
  base endpoint before it and the play path, which keeps the \<^verbatim>\<open>mp4:\<close> prefix, and marks
  the source \<^verbatim>\<open>rtmp_live\<close>. The resolver reaches that step only when the last file
  element is a blank string, so it never returns a push-stream record.
\<close>

theorem mp4_marker_split:
  assumes "determine_ext env (a @ ''mp4:'' @ b) \<noteq> ''m3u8''"
    and "\<not> occurs ''mp4:'' (a @ ''mp4'')" and "\<not> occurs ''mp4:'' b"
  shows "single_info env video_id common (a @ ''mp4:'' @ b) =
           Inr (SingleRtmp common
             \<lparr>rtmp_url = a, rtmp_ext = ''flv'', rtmp_play_path = ''mp4:'' @ b, rtmp_live = True\<rparr>)
       \<and> fst (real_extract env url video_id) \<noteq> Inr (SingleRtmp common' src)"
proof
  have "py_split ''mp4:'' [] (a @ ''mp4:'' @ b) = [a, b]"
    using py_split_first [of "''mp4:''" a "[]" b] py_split_no_occurrence [of "''mp4:''" b "[]"]
      assms(2,3) by simp
  with assms(1) show "single_info env video_id common (a @ ''mp4:'' @ b) =
           Inr (SingleRtmp common
             \<lparr>rtmp_url = a, rtmp_ext = ''flv'', rtmp_play_path = ''mp4:'' @ b, rtmp_live = True\<rparr>)"
    by (simp add: single_info_def unpack2_def)
  show "fst (real_extract env url video_id) \<noteq> Inr (SingleRtmp common' src)"
    using real_extract_Inr build_info_not_rtmp by blast
qed

theorem mp4_marker_split_witness:
  "single_info (succeed_env [] False) ''36164052'' (example_common ''36164052'')
     ''rtmp://v.afreecatv.com/app/mp4:a/b'' =
   Inr (SingleRtmp (example_common ''36164052'')
     \<lparr>rtmp_url = ''rtmp://v.afreecatv.com/app/'', rtmp_ext = ''flv'',
      rtmp_play_path = ''mp4:a/b'', rtmp_live = True\<rparr>)"
proof -
  have h: "determine_ext (succeed_env [] False) (''rtmp://v.afreecatv.com/app/'' @ ''mp4:'' @ ''a/b'')
        \<noteq> ''m3u8''"
    "\<not> occurs ''mp4:'' (''rtmp://v.afreecatv.com/app/'' @ ''mp4'')"
    "\<not> occurs ''mp4:'' ''a/b''"
    by code_simp+
  from mp4_marker_split [OF h] show ?thesis by simp
qed

text \<open>
  C5 as stated fails: a single file whose URL contains \<^verbatim>\<open>mp4:\<close> is returned as one
  progressive source of a multi-part record, neither split nor marked; and the split
  itself raises \<^verbatim>\<open>ValueError\<close> on a URL with two occurrences of the marker.
\<close>

theorem mp4_marker_file_is_not_split:
  "occurs ''mp4:'' ''rtmp://v.afreecatv.com/app/mp4:a/b'' \<and>
   fst (real_extract (succeed_env [rtmp_file] False) ''u'' ''36164052'') =
     Inr (MultiVideo (example_common ''36164052'')
       [file_info (succeed_env [rtmp_file] False) ''36164052'' (example_common ''36164052'') True 1
          (JStr []) None (JInt 213000)
          [\<lparr>fmt_url = ''rtmp://v.afreecatv.com/app/mp4:a/b'', fmt_format_id = ''http''\<rparr>]]) \<and>
   single_info (succeed_env [] False) ''36164052'' (example_common ''36164052'')
     ''rtmp://v.afreecatv.com/mp4:a/mp4:b'' = Inl ValueError"
  by code_simp

section \<open>Properties of the live resolver\<close>

lemma dict_get_error: "dict_get obj k = Inl e \<Longrightarrow> e = AttributeError"
  by (cases obj) (auto simp add: dict_get_def split: option.splits)

lemma dict_get_default_error: "dict_get_default obj k d = Inl e \<Longrightarrow> e = AttributeError"
  by (cases obj) (auto split: option.splits)

lemma dict_get_empty [simp]: "dict_get (JDict []) k = Inr JNull"
  by (simp add: dict_get_def)

lemma tier_step_error:
  "tier_step env channel_info broadcast_no q formats log = (Inl e, log') \<Longrightarrow>
   e = AttributeError \<or> e = Collaborator ''update_url_query''"
  by (auto simp add: tier_step_def Let_def split: if_splits sum.splits option.splits
      dest: dict_get_error dict_get_default_error)

lemma tier_step_log:
  "\<exists>rest. snd (tier_step env channel_info broadcast_no q formats log) =
     log @ AidRequest broadcast_no q (videopassword env) # rest"
  by (auto simp add: tier_step_def Let_def split: if_splits sum.splits option.splits)

lemma tier_loop_error:
  "tier_loop env channel_info broadcast_no qs formats log = (Inl e, log') \<Longrightarrow>
   e = AttributeError \<or> e = Collaborator ''update_url_query''"
proof (induction qs arbitrary: formats log)
  case Nil
  then show ?case by simp
next
  case (Cons q qs)
  show ?case
  proof (cases "tier_step env channel_info broadcast_no q formats log")
    case (Pair res log1)
    show ?thesis
    proof (cases res)
      case (Inl e1)
      with Pair Cons.prems have "e = e1" by simp
      with Pair Inl tier_step_error show ?thesis by blast
    next
      case (Inr formats1)
      with Pair Cons.prems Cons.IH show ?thesis by simp
    qed
  qed
qed

lemma tier_loop_log:
  "\<exists>rest. snd (tier_loop env channel_info broadcast_no qs formats log) = log @ rest"
proof (induction qs arbitrary: formats log)
  case Nil
  then show ?case by simp
next
  case (Cons q qs)
  obtain res log1 where s: "tier_step env channel_info broadcast_no q formats log = (res, log1)"
    by (cases "tier_step env channel_info broadcast_no q formats log")
  from tier_step_log [of env channel_info broadcast_no q formats log] s
  obtain r1 where l1: "log1 = log @ AidRequest broadcast_no q (videopassword env) # r1"
    by auto
  show ?case
  proof (cases res)
    case (Inl e1)
    with s l1 show ?thesis by simp
  next
    case (Inr formats1)
    from Cons.IH [of formats1 log1] obtain r2 where
      "snd (tier_loop env channel_info broadcast_no qs formats1 log1) = log1 @ r2"
      by blast
    with s l1 Inr show ?thesis by simp
  qed
qed

lemma tier_loop_first:
  "\<exists>rest. snd (tier_loop env channel_info broadcast_no (q # qs) formats log) =
     log @ AidRequest broadcast_no q (videopassword env) # rest"
proof -
  obtain res log1 where s: "tier_step env channel_info broadcast_no q formats log = (res, log1)"
    by (cases "tier_step env channel_info broadcast_no q formats log")
  from tier_step_log [of env channel_info broadcast_no q formats log] s
  obtain r1 where l1: "log1 = log @ AidRequest broadcast_no q (videopassword env) # r1"
    by auto
  show ?thesis
  proof (cases res)
    case (Inl e1)
    with s l1 show ?thesis by simp
  next
    case (Inr formats1)
    from tier_loop_log [of env channel_info broadcast_no qs formats1 log1] obtain r2 where
      "snd (tier_loop env channel_info broadcast_no qs formats1 log1) = log1 @ r2"
      by blast
    with s l1 Inr show ?thesis by simp
  qed
qed

lemma live_record_result:
  "live_record env channel_info broadcaster_id broadcast_no formats log = (res, log') \<Longrightarrow>
   log' = log @ [StationRequest broadcaster_id] \<and>
   (\<forall>e. res = Inl e \<longrightarrow> e = AttributeError) \<and>
   (\<forall>info. res = Inr info \<longrightarrow> live_id info = broadcast_no \<and> live_uploader_id info = broadcaster_id
      \<and> live_formats info = formats \<and> is_live info)"
  by (auto simp add: live_record_def Let_def then_do_def split: sum.splits if_splits
      dest: dict_get_error)

text \<open>What the resolver does once the channel lookup has given its three values.\<close>

lemma live_after_channel:
  assumes "live_channel env url_id url_bno = Inr (channel_info, broadcaster_id, broadcast_no)"
  shows "(\<exists>rest. snd (live_real_extract env url_id url_bno) =
            ChannelRequest url_id # AidRequest broadcast_no ''sd'' (videopassword env) # rest)"
    and "fst (live_real_extract env url_id url_bno) = Inl e \<Longrightarrow>
           e = AttributeError \<or> e = Collaborator ''update_url_query''"
    and "fst (live_real_extract env url_id url_bno) = Inr info \<Longrightarrow>
           live_id info = broadcast_no \<and> live_uploader_id info = broadcaster_id"
proof -
  obtain res log where t: "tier_loop env channel_info broadcast_no QUALITIES []
      [ChannelRequest url_id] = (res, log)"
    by (cases "tier_loop env channel_info broadcast_no QUALITIES [] [ChannelRequest url_id]")
  from tier_loop_first [of env channel_info broadcast_no "''sd''" "[''hd'', ''hd2k'', ''original'']"
      "[]" "[ChannelRequest url_id]"] t
  obtain rest where log: "log = ChannelRequest url_id #
      AidRequest broadcast_no ''sd'' (videopassword env) # rest"
    by (auto simp add: QUALITIES_def)
  show "\<exists>rest. snd (live_real_extract env url_id url_bno) =
            ChannelRequest url_id # AidRequest broadcast_no ''sd'' (videopassword env) # rest"
  proof (cases res)
    case (Inl e1)
    with assms t log show ?thesis by (simp add: live_real_extract_def)
  next
    case (Inr formats)
    obtain res2 log2 where
      r: "live_record env channel_info broadcaster_id broadcast_no formats log = (res2, log2)"
      by (cases "live_record env channel_info broadcaster_id broadcast_no formats log")
    with live_record_result [OF r] assms t log Inr show ?thesis
      by (simp add: live_real_extract_def)
  qed
  show "e = AttributeError \<or> e = Collaborator ''update_url_query''"
    if "fst (live_real_extract env url_id url_bno) = Inl e"
  proof (cases res)
    case (Inl e1)
    with assms t that have "e = e1" by (simp add: live_real_extract_def)
    with t Inl tier_loop_error show ?thesis by blast
  next
    case (Inr formats)
    obtain res2 log2 where
      r: "live_record env channel_info broadcaster_id broadcast_no formats log = (res2, log2)"
      by (cases "live_record env channel_info broadcaster_id broadcast_no formats log")
    with live_record_result [OF r] assms t Inr that show ?thesis
      by (simp add: live_real_extract_def)
  qed
  show "live_id info = broadcast_no \<and> live_uploader_id info = broadcaster_id"
    if "fst (live_real_extract env url_id url_bno) = Inr info"
  proof (cases res)
    case (Inl e1)
    with assms t that show ?thesis by (simp add: live_real_extract_def)
  next
    case (Inr formats)
    obtain res2 log2 where
      r: "live_record env channel_info broadcaster_id broadcast_no formats log = (res2, log2)"
      by (cases "live_record env channel_info broadcaster_id broadcast_no formats log")
    with live_record_result [OF r] assms t Inr that show ?thesis
      by (simp add: live_real_extract_def)
  qed
qed

lemma dict_get_other: "dict_get obj k = Inr v \<Longrightarrow> \<exists>w. dict_get obj k' = Inr w"
  by (cases obj) (auto simp add: dict_get_def split: option.splits)

lemma dict_get_Inr_iff:
  "dict_get obj k = Inr v \<longleftrightarrow>
     (\<exists>kvs. obj = JDict kvs \<and> v = (case map_of kvs k of None \<Rightarrow> JNull | Some w \<Rightarrow> w))"
  by (cases obj) (auto simp add: dict_get_def split: option.splits)

lemma live_channel_failed_lookup:
  assumes "\<not> truthy (download_nonfatal env [] (ChannelRequest url_id))"
  shows "live_channel env url_id url_bno =
     (if truthy (url_group url_bno) then Inr (JDict [], JStr url_id, url_group url_bno)
      else Inl (UnableToExtractBroadcastNumber (JStr url_id)))"
  using assms by (simp add: live_channel_def Let_def py_or_def)

lemma live_channel_password:
  assumes "live_channel env url_id url_bno = Inl PasswordProtected"
  shows "videopassword env = None \<and>
     (\<exists>kvs ckvs. download_nonfatal env [] (ChannelRequest url_id) = JDict kvs \<and>
        map_of kvs ''CHANNEL'' = Some (JDict ckvs) \<and> map_of ckvs ''BPWD'' = Some (JStr ''Y''))"
proof -
  let ?resp = "download_nonfatal env [] (ChannelRequest url_id)"
  from assms obtain channel where
    c: "dict_get (py_or ?resp (JDict [])) ''CHANNEL'' = Inr channel"
    by (cases "dict_get (py_or ?resp (JDict [])) ''CHANNEL''")
       (auto simp add: live_channel_def Let_def dest: dict_get_error)
  from assms c obtain bjid where b: "dict_get (py_or channel (JDict [])) ''BJID'' = Inr bjid"
    by (cases "dict_get (py_or channel (JDict [])) ''BJID''")
       (auto simp add: live_channel_def Let_def dest: dict_get_error)
  from assms c b obtain bno where n: "dict_get (py_or channel (JDict [])) ''BNO'' = Inr bno"
    by (cases "dict_get (py_or channel (JDict [])) ''BNO''")
       (auto simp add: live_channel_def Let_def dest: dict_get_error)
  from assms c b n obtain pw where p: "dict_get (py_or channel (JDict [])) ''BPWD'' = Inr pw"
    by (cases "dict_get (py_or channel (JDict [])) ''BPWD''")
       (auto simp add: live_channel_def Let_def dest: dict_get_error)
  from assms c b n p have y: "pw = JStr ''Y''" and v: "videopassword env = None"
    by (simp_all add: live_channel_def Let_def split: if_splits)
  from p y have "truthy channel"
    by (cases "truthy channel") (simp_all add: py_or_def)
  with p y obtain ckvs where ck: "channel = JDict ckvs" "map_of ckvs ''BPWD'' = Some (JStr ''Y'')"
    by (auto simp add: py_or_def dict_get_Inr_iff split: option.splits)
  from c ck have "truthy ?resp"
    by (cases "truthy ?resp") (simp_all add: py_or_def)
  with c ck obtain kvs where "?resp = JDict kvs" "map_of kvs ''CHANNEL'' = Some (JDict ckvs)"
    by (auto simp add: py_or_def dict_get_Inr_iff split: option.splits)
  with v ck show ?thesis by blast
qed

lemma live_password_from_channel:
  "fst (live_real_extract env url_id url_bno) = Inl PasswordProtected \<Longrightarrow>
   live_channel env url_id url_bno = Inl PasswordProtected"
proof (cases "live_channel env url_id url_bno")
  case (Inl e)
  assume "fst (live_real_extract env url_id url_bno) = Inl PasswordProtected"
  with Inl show ?thesis by (simp add: live_real_extract_def)
next
  case (Inr t)
  assume a: "fst (live_real_extract env url_id url_bno) = Inl PasswordProtected"
  obtain ci bid bno where "t = (ci, bid, bno)" by (cases t)
  with Inr live_after_channel(2) [of env url_id url_bno ci bid bno PasswordProtected] a
  show ?thesis by simp
qed

text \<open>
  C8. When the URL has no broadcast number and the channel lookup gives none (the answer
  is read and its \<^verbatim>\<open>BNO\<close> is absent or falsy), the live resolver fails with the error
  \<^verbatim>\<open>Unable to extract broadcast number\<close> and the channel lookup is the only request it
  has issued: no access-token request and no CDN-assignment request.
\<close>

theorem no_broadcast_number_is_not_live:
  assumes "dict_get (py_or (download_nonfatal env [] (ChannelRequest url_id)) (JDict []))
             ''CHANNEL'' = Inr channel"
    and "dict_get (py_or channel (JDict [])) ''BJID'' = Inr bjid"
    and "dict_get (py_or channel (JDict [])) ''BNO'' = Inr bno"
    and "\<not> truthy bno"
  shows "live_real_extract env url_id None =
           (Inl (UnableToExtractBroadcastNumber (py_or bjid (JStr url_id))),
            [ChannelRequest url_id])"
proof -
  from assms(3) obtain pw where "dict_get (py_or channel (JDict [])) ''BPWD'' = Inr pw"
    using dict_get_other by blast
  with assms have "live_channel env url_id None =
      Inl (UnableToExtractBroadcastNumber (py_or bjid (JStr url_id)))"
    by (simp add: live_channel_def Let_def url_group_def py_or_def)
  then show ?thesis by (simp add: live_real_extract_def)
qed

theorem no_broadcast_number_is_not_live_witness:
  "live_real_extract (example_live_env offline_channel None) ''pyh3646'' None =
     (Inl (UnableToExtractBroadcastNumber (JStr ''pyh3646'')), [ChannelRequest ''pyh3646''])"
proof -
  let ?env = "example_live_env offline_channel None"
  have c: "dict_get (py_or (download_nonfatal ?env [] (ChannelRequest ''pyh3646'')) (JDict []))
      ''CHANNEL'' = Inr (JDict [(''RESULT'', JInt 0)])"
    by code_simp
  have b: "dict_get (py_or (JDict [(''RESULT'', JInt 0)]) (JDict [])) ''BJID'' = Inr JNull"
    "dict_get (py_or (JDict [(''RESULT'', JInt 0)]) (JDict [])) ''BNO'' = Inr JNull"
    "\<not> truthy JNull"
    by code_simp+
  from no_broadcast_number_is_not_live [OF c b] show ?thesis
    by (simp add: py_or_def)
qed

text \<open>
  C9. When the channel lookup fails or its answer is empty, the resolver goes on with the
  broadcaster handle and the broadcast number of the URL: it fails with
  \<^verbatim>\<open>Unable to extract broadcast number\<close> when the URL has no number, and otherwise asks
  for the access token of the first tier under the URL's number, and any record it returns
  carries the URL's number and handle; it does not raise the password failure. In any
  run, the password failure is raised only when the channel answer is an object whose
  \<^verbatim>\<open>CHANNEL\<close> has \<^verbatim>\<open>BPWD\<close> equal to \<^verbatim>\<open>Y\<close> and no password was given.
\<close>

theorem failed_lookup_uses_url_values:
  "(\<not> truthy (download_nonfatal env [] (ChannelRequest url_id)) \<longrightarrow>
      fst (live_real_extract env url_id url_bno) \<noteq> Inl PasswordProtected \<and>
      (url_bno = None \<longrightarrow>
         live_real_extract env url_id url_bno =
           (Inl (UnableToExtractBroadcastNumber (JStr url_id)), [ChannelRequest url_id])) \<and>
      (\<forall>b. url_bno = Some b \<and> b \<noteq> [] \<longrightarrow>
         live_channel env url_id url_bno = Inr (JDict [], JStr url_id, JStr b) \<and>
         (\<exists>rest. snd (live_real_extract env url_id url_bno) =
            ChannelRequest url_id # AidRequest (JStr b) ''sd'' (videopassword env) # rest) \<and>
         (\<forall>e. fst (live_real_extract env url_id url_bno) = Inl e \<longrightarrow>
            e = AttributeError \<or> e = Collaborator ''update_url_query'') \<and>
         (\<forall>info. fst (live_real_extract env url_id url_bno) = Inr info \<longrightarrow>
            live_id info = JStr b \<and> live_uploader_id info = JStr url_id))) \<and>
   (fst (live_real_extract env url_id url_bno) = Inl PasswordProtected \<longrightarrow>
      videopassword env = None \<and>
      (\<exists>kvs ckvs. download_nonfatal env [] (ChannelRequest url_id) = JDict kvs \<and>
         map_of kvs ''CHANNEL'' = Some (JDict ckvs) \<and> map_of ckvs ''BPWD'' = Some (JStr ''Y'')))"
proof (intro conjI impI allI)
  assume f: "\<not> truthy (download_nonfatal env [] (ChannelRequest url_id))"
  note ch = live_channel_failed_lookup [OF f, of url_bno]
  show "fst (live_real_extract env url_id url_bno) \<noteq> Inl PasswordProtected"
  proof
    assume "fst (live_real_extract env url_id url_bno) = Inl PasswordProtected"
    then have "live_channel env url_id url_bno = Inl PasswordProtected"
      by (rule live_password_from_channel)
    with ch show False by (simp split: if_splits)
  qed
  show "live_real_extract env url_id url_bno =
      (Inl (UnableToExtractBroadcastNumber (JStr url_id)), [ChannelRequest url_id])"
    if "url_bno = None"
    using that ch by (simp add: live_real_extract_def url_group_def)
  fix b
  assume b: "url_bno = Some b \<and> b \<noteq> []"
  with ch show c: "live_channel env url_id url_bno = Inr (JDict [], JStr url_id, JStr b)"
    by (simp add: url_group_def)
  from live_after_channel(1) [OF c]
  show "\<exists>rest. snd (live_real_extract env url_id url_bno) =
      ChannelRequest url_id # AidRequest (JStr b) ''sd'' (videopassword env) # rest" .
  show "e = AttributeError \<or> e = Collaborator ''update_url_query''"
    if "fst (live_real_extract env url_id url_bno) = Inl e" for e
    using live_after_channel(2) [OF c that] .
  show "live_id info = JStr b" if "fst (live_real_extract env url_id url_bno) = Inr info" for info
    using live_after_channel(3) [OF c that] by simp
  show "live_uploader_id info = JStr url_id"
    if "fst (live_real_extract env url_id url_bno) = Inr info" for info
    using live_after_channel(3) [OF c that] by simp
next
  assume p: "fst (live_real_extract env url_id url_bno) = Inl PasswordProtected"
  from live_channel_password [OF live_password_from_channel [OF p]]
  show "videopassword env = None"
    and "\<exists>kvs ckvs. download_nonfatal env [] (ChannelRequest url_id) = JDict kvs \<and>
         map_of kvs ''CHANNEL'' = Some (JDict ckvs) \<and> map_of ckvs ''BPWD'' = Some (JStr ''Y'')"
    by simp_all
qed

theorem failed_lookup_uses_url_values_witness:
  "live_real_extract (example_live_env (JBool False) None) ''pyh3646'' (Some ''237852185'') =
     (Inr \<lparr>live_id = JStr ''237852185'', live_title = JNull, live_uploader = JNull,
           live_uploader_id = JStr ''pyh3646'', live_timestamp = None, live_formats = [],
           is_live = True\<rparr>,
      [ChannelRequest ''pyh3646'', AidRequest (JStr ''237852185'') ''sd'' None,
       AidRequest (JStr ''237852185'') ''hd'' None, AidRequest (JStr ''237852185'') ''hd2k'' None,
       AidRequest (JStr ''237852185'') ''original'' None, StationRequest (JStr ''pyh3646'')]) \<and>
   live_channel (example_live_env (JBool False) None) ''pyh3646'' (Some ''237852185'') =
     Inr (JDict [], JStr ''pyh3646'', JStr ''237852185'') \<and>
   live_real_extract (example_live_env (JBool False) None) ''pyh3646'' None =
     (Inl (UnableToExtractBroadcastNumber (JStr ''pyh3646'')), [ChannelRequest ''pyh3646'']) \<and>
   fst (live_real_extract (example_live_env protected_channel None) ''pyh3646'' None) =
     Inl PasswordProtected \<and>
   videopassword (example_live_env protected_channel None) = None"
proof -
  let ?env = "example_live_env (JBool False) None"
  have f: "\<not> truthy (download_nonfatal ?env [] (ChannelRequest ''pyh3646''))"
    by code_simp
  have run: "live_real_extract ?env ''pyh3646'' (Some ''237852185'') =
     (Inr \<lparr>live_id = JStr ''237852185'', live_title = JNull, live_uploader = JNull,
           live_uploader_id = JStr ''pyh3646'', live_timestamp = None, live_formats = [],
           is_live = True\<rparr>,
      [ChannelRequest ''pyh3646'', AidRequest (JStr ''237852185'') ''sd'' None,
       AidRequest (JStr ''237852185'') ''hd'' None, AidRequest (JStr ''237852185'') ''hd2k'' None,
       AidRequest (JStr ''237852185'') ''original'' None, StationRequest (JStr ''pyh3646'')])"
    by code_simp
  have p: "fst (live_real_extract (example_live_env protected_channel None) ''pyh3646'' None) =
     Inl PasswordProtected"
    by code_simp
  from failed_lookup_uses_url_values [of ?env "''pyh3646''" "Some ''237852185''"] f
  have 1: "live_channel ?env ''pyh3646'' (Some ''237852185'') =
     Inr (JDict [], JStr ''pyh3646'', JStr ''237852185'')"
    by simp
  from failed_lookup_uses_url_values [of ?env "''pyh3646''" None] f
  have 2: "live_real_extract ?env ''pyh3646'' None =
     (Inl (UnableToExtractBroadcastNumber (JStr ''pyh3646'')), [ChannelRequest ''pyh3646''])"
    by simp
  from failed_lookup_uses_url_values [of "example_live_env protected_channel None"
      "''pyh3646''" None] p
  have 3: "videopassword (example_live_env protected_channel None) = None"
    by blast
  from run 1 2 p 3 show ?thesis by simp
qed

end
